theory Spec2Isabelle
  imports Main
begin

section \<open>JavaScript values, errors and effects\<close>

text \<open>
  JavaScript throws any value. A thrown value is an \<open>Error\<close> object, whose
  \<open>message\<close> is a string, or a value that is no \<open>Error\<close> object and has no
  \<open>message\<close> property: a string primitive, as after \<^verbatim>\<open>throw 'x'\<close> or
  \<^verbatim>\<open>Promise.reject('x')\<close>. What the code reads of a caught value is only
  \<open>error.message\<close>, which is \<open>undefined\<close> (\<open>None\<close>) for the second kind. The values
  \<open>null\<close> and \<open>undefined\<close>, of which no property can be read, are not among the
  thrown values of this model. A call that may throw has a result in
  \<open>js_error + 'a\<close>: \<open>Inl\<close> the thrown value, \<open>Inr\<close> the value returned.
\<close>

datatype js_error = Error string | Thrown string

fun message_of :: "js_error \<Rightarrow> string option" where
  "message_of (Error msg) = Some msg"
| "message_of (Thrown v) = None"

text \<open>\<open>s.includes(sub)\<close>: \<open>sub\<close> occurs in \<open>s\<close> as a contiguous run.\<close>

definition startsWith :: "string \<Rightarrow> string \<Rightarrow> bool" where
  "startsWith s sub = (take (length sub) s = sub)"

fun str_includes :: "string \<Rightarrow> string \<Rightarrow> bool" where
  "str_includes [] sub = (sub = [])"
| "str_includes (c # cs) sub = (startsWith (c # cs) sub \<or> str_includes cs sub)"

text \<open>\<open>xs.join(sep)\<close> on an array of strings.\<close>

fun join :: "string \<Rightarrow> string list \<Rightarrow> string" where
  "join sep [] = []"
| "join sep [x] = x"
| "join sep (x # y # ys) = x @ sep @ join sep (y # ys)"

text \<open>
  A string that may be \<open>undefined\<close> (an environment variable, a field that was not
  given) is a \<open>string option\<close>; it is truthy when it is defined and not empty.
\<close>

definition truthy :: "string option \<Rightarrow> bool" where
  "truthy v = (case v of None \<Rightarrow> False | Some s \<Rightarrow> s \<noteq> [])"

text \<open>
  \<open>s.trim()\<close> removes leading and trailing white space and line terminators. Strings
  are byte sequences in UTF-8 here, so each white-space code point of ECMAScript is the
  byte sequence that encodes it: U+0009 to U+000D and U+0020 (one byte each), U+00A0,
  U+1680, U+2000 to U+200A, U+2028, U+2029, U+202F, U+205F, U+3000 and U+FEFF.
\<close>

definition whitespace_tokens :: "string list" where
  "whitespace_tokens =
     [[CHR 0x09], [CHR 0x0A], [CHR 0x0B], [CHR 0x0C], [CHR 0x0D], [CHR 0x20],
      [CHR 0xC2, CHR 0xA0], [CHR 0xE1, CHR 0x9A, CHR 0x80],
      [CHR 0xE2, CHR 0x80, CHR 0x80], [CHR 0xE2, CHR 0x80, CHR 0x81],
      [CHR 0xE2, CHR 0x80, CHR 0x82], [CHR 0xE2, CHR 0x80, CHR 0x83],
      [CHR 0xE2, CHR 0x80, CHR 0x84], [CHR 0xE2, CHR 0x80, CHR 0x85],
      [CHR 0xE2, CHR 0x80, CHR 0x86], [CHR 0xE2, CHR 0x80, CHR 0x87],
      [CHR 0xE2, CHR 0x80, CHR 0x88], [CHR 0xE2, CHR 0x80, CHR 0x89],
      [CHR 0xE2, CHR 0x80, CHR 0x8A], [CHR 0xE2, CHR 0x80, CHR 0xA8],
      [CHR 0xE2, CHR 0x80, CHR 0xA9], [CHR 0xE2, CHR 0x80, CHR 0xAF],
      [CHR 0xE2, CHR 0x81, CHR 0x9F], [CHR 0xE3, CHR 0x80, CHR 0x80],
      [CHR 0xEF, CHR 0xBB, CHR 0xBF]]"

text \<open>
  Removing white space from the front of a byte sequence whose white-space tokens are
  \<open>tokens\<close>. At the end of the string the same is done on the reversed string with the
  reversed tokens.
\<close>

function strip_front :: "string list \<Rightarrow> string \<Rightarrow> string" where
  "strip_front tokens s =
     (case find (\<lambda>t. t \<noteq> [] \<and> startsWith s t) tokens of
        None \<Rightarrow> s
      | Some t \<Rightarrow> strip_front tokens (drop (length t) s))"
  by pat_completeness auto
termination
proof (relation "measure (\<lambda>(tokens, s). length s)")
  show "wf (measure (\<lambda>(tokens, s). length s))" by simp
next
  fix tokens :: "string list" and s t :: string
  assume "find (\<lambda>t. t \<noteq> [] \<and> startsWith s t) tokens = Some t"
  then have "t \<noteq> []" and "startsWith s t"
    by (auto simp: find_Some_iff)
  then have "s \<noteq> []"
    by (auto simp: startsWith_def)
  with \<open>t \<noteq> []\<close> show "((tokens, drop (length t) s), (tokens, s)) \<in> measure (\<lambda>(tokens, s). length s)"
    by simp
qed

declare strip_front.simps [simp del]

definition trim :: "string \<Rightarrow> string" where
  "trim s = rev (strip_front (map rev whitespace_tokens) (rev (strip_front whitespace_tokens s)))"

text \<open>
  The effects of the program on the outside, in the order they happen. The body of a
  carrier method that only drives the browser and the agent is one event; what it
  returns or throws is taken from the world (below). Calls of the logger, of the spinner
  and of \<open>console\<close> only print and are left out.
\<close>

datatype json =
  JNull
| JBool bool
| JNumber int
| JString string
| JArray "json list"
| JObject "(string \<times> json) list"

datatype effect =
  Assign_lastClaudeCall int
| Agent_execute string
| Agent_run string
| SetTimeout nat
| New_Stagehand
| Stagehand_init
| Stagehand_agent
| Stagehand_close
| Carrier_close
| Page_screenshot string
| Page_goto string
| Page_extract string
| HybridLogin_body
| FillBookingForm_steps
| SubmitBookingForm_body
| WriteFile string json

section \<open>Sequencing, \<open>try\<close>/\<open>catch\<close> and \<open>try\<close>/\<open>finally\<close>\<close>

text \<open>
  An \<open>async\<close> function body over mutable state \<open>'s\<close>: from the state at its start to
  its result, the state at its end and the effects it had. The program is sequential
  (every promise is awaited), so \<open>await f()\<close> is running \<open>f\<close>.
\<close>

type_synonym ('s, 'a) prog = "'s \<Rightarrow> (js_error + 'a) \<times> 's \<times> effect list"

definition js_return :: "'a \<Rightarrow> ('s, 'a) prog" where
  "js_return x = (\<lambda>s. (Inr x, s, []))"

definition js_throw :: "js_error \<Rightarrow> ('s, 'a) prog" where
  "js_throw e = (\<lambda>s. (Inl e, s, []))"

text \<open>\<open>m; f\<close>: a statement that throws ends the sequence.\<close>

definition js_seq :: "('s, 'a) prog \<Rightarrow> ('a \<Rightarrow> ('s, 'b) prog) \<Rightarrow> ('s, 'b) prog" where
  "js_seq m f =
     (\<lambda>s. case m s of
            (Inl e, s1, t1) \<Rightarrow> (Inl e, s1, t1)
          | (Inr x, s1, t1) \<Rightarrow> (case f x s1 of (r, s2, t2) \<Rightarrow> (r, s2, t1 @ t2)))"

text \<open>\<open>try { m } catch (e) { h e }\<close>.\<close>

definition js_try_catch :: "('s, 'a) prog \<Rightarrow> (js_error \<Rightarrow> ('s, 'a) prog) \<Rightarrow> ('s, 'a) prog" where
  "js_try_catch m h =
     (\<lambda>s. case m s of
            (Inl e, s1, t1) \<Rightarrow> (case h e s1 of (r, s2, t2) \<Rightarrow> (r, s2, t1 @ t2))
          | (Inr x, s1, t1) \<Rightarrow> (Inr x, s1, t1))"

text \<open>
  \<open>try { m } finally { fin }\<close>: \<open>fin\<close> runs however \<open>m\<close> ends; when \<open>fin\<close> throws, its
  error replaces the result of \<open>m\<close>, otherwise the result of \<open>m\<close> stands.
\<close>

definition js_try_finally :: "('s, 'a) prog \<Rightarrow> ('s, unit) prog \<Rightarrow> ('s, 'a) prog" where
  "js_try_finally m fin =
     (\<lambda>s. case m s of
            (r, s1, t1) \<Rightarrow>
              (case fin s1 of
                 (Inl e, s2, t2) \<Rightarrow> (Inl e, s2, t1 @ t2)
               | (Inr _, s2, t2) \<Rightarrow> (r, s2, t1 @ t2)))"

text \<open>A call to the outside: one event, and the result the world gives.\<close>

definition external :: "effect \<Rightarrow> js_error + 'a \<Rightarrow> ('s, 'a) prog" where
  "external ev outcome = (\<lambda>s. (outcome, s, [ev]))"

text \<open>\<open>await new Promise(resolve => setTimeout(resolve, ms))\<close>.\<close>

definition sleep :: "nat \<Rightarrow> ('s, unit) prog" where
  "sleep ms = external (SetTimeout ms) (Inr ())"

text \<open>Reading the state, and changing it.\<close>

definition js_get :: "('s \<Rightarrow> ('s, 'a) prog) \<Rightarrow> ('s, 'a) prog" where
  "js_get f = (\<lambda>s. f s s)"

definition js_modify :: "('s \<Rightarrow> 's) \<Rightarrow> ('s, unit) prog" where
  "js_modify f = (\<lambda>s. (Inr (), f s, []))"

text \<open>
  Reading a property of \<open>undefined\<close> or of \<open>null\<close> throws a \<open>TypeError\<close> with
  this message.
\<close>

definition TypeError_reading :: "string \<Rightarrow> string \<Rightarrow> js_error" where
  "TypeError_reading what prop =
     Error (''Cannot read properties of '' @ what @ '' (reading '' @ [CHR 0x27] @ prop @ [CHR 0x27] @ '')'')"

section \<open>The rate-limited agent call\<close>

text \<open>
  The two carrier classes keep the same two fields, set by their constructors:
  \<^verbatim>\<open>this.lastClaudeCall = 0; this.claudeRateLimit = 60000;\<close>
  The helpers below read and write nothing else of \<open>this\<close>, so they are stated over
  every record that extends these fields.
\<close>

record rate_limit_fields =
  lastClaudeCall :: int
  claudeRateLimit :: int

record call_result =
  message :: string
  rateLimited :: bool

datatype agent_result = AgentResult (result_message: string)

text \<open>
  The test of the \<open>catch\<close> blocks,
  \<^verbatim>\<open>error.message.includes('429') || error.message.includes('rate_limit')\<close>:
  \<open>Inr\<close> its truth value. When \<open>error.message\<close> is \<open>undefined\<close> the call of
  \<open>includes\<close> throws a \<open>TypeError\<close> (\<open>Inl\<close>).
\<close>

definition is_rate_limit_error :: "js_error \<Rightarrow> js_error + bool" where
  "is_rate_limit_error error =
     (case message_of error of
        None \<Rightarrow> Inl (TypeError_reading ''undefined'' ''includes'')
      | Some msg \<Rightarrow> Inr (str_includes msg ''429'' \<or> str_includes msg ''rate_limit''))"

text \<open>
  \<open>_claudeCallWithRateLimit(taskDescription, fallbackMessage = '...')\<close> of the Stagehand
  carrier. \<open>now\<close> is the value \<open>Date.now()\<close> returns, \<open>execute\<close> is the external agent:
  what \<open>this.agent.execute(taskDescription)\<close> resolves to or rejects with. An argument
  that is left out (\<open>None\<close>) takes the default of the parameter list. The effects are
  the assignments to \<open>this.lastClaudeCall\<close> and the call of the agent.
\<close>

definition claude_fallback_default :: string where
  "claude_fallback_default = ''Claude call skipped due to rate limiting''"

definition claudeCallWithRateLimit ::
  "(string \<Rightarrow> js_error + agent_result) \<Rightarrow> int \<Rightarrow> string \<Rightarrow> string option \<Rightarrow>
   ('a rate_limit_fields_scheme, call_result) prog" where
  "claudeCallWithRateLimit execute now taskDescription fallbackArg this =
     (let fallbackMessage = (case fallbackArg of None \<Rightarrow> claude_fallback_default | Some m \<Rightarrow> m);
          timeSinceLastCall = now - lastClaudeCall this
      in if timeSinceLastCall < claudeRateLimit this
         then (Inr \<lparr>message = fallbackMessage, rateLimited = True\<rparr>, this, [])
         else
           (let this1 = this\<lparr>lastClaudeCall := now\<rparr>;
                started = [Assign_lastClaudeCall now, Agent_execute taskDescription]
            in case execute taskDescription of
                 Inr result \<Rightarrow>
                   (Inr \<lparr>message = result_message result, rateLimited = False\<rparr>, this1, started)
               | Inl error \<Rightarrow>
                   (case is_rate_limit_error error of
                      Inl typeError \<Rightarrow> (Inl typeError, this1, started)
                    | Inr True \<Rightarrow>
                        (Inr \<lparr>message = fallbackMessage, rateLimited = True\<rparr>,
                         this1\<lparr>lastClaudeCall := now + claudeRateLimit this1\<rparr>,
                         started @ [Assign_lastClaudeCall (now + claudeRateLimit this1)])
                    | Inr False \<Rightarrow> (Inl error, this1, started))))"

text \<open>
  \<open>_agentCallWithRateLimit\<close> of the Browser Use carrier: the same entry test and the
  same error handling; the agent is run for its effect and the success message is fixed.
\<close>

definition agent_fallback_default :: string where
  "agent_fallback_default = ''Agent call skipped due to rate limiting''"

definition agentCallWithRateLimit ::
  "(string \<Rightarrow> js_error + unit) \<Rightarrow> int \<Rightarrow> string \<Rightarrow> string option \<Rightarrow>
   ('a rate_limit_fields_scheme, call_result) prog" where
  "agentCallWithRateLimit run now taskDescription fallbackArg this =
     (let fallbackMessage = (case fallbackArg of None \<Rightarrow> agent_fallback_default | Some m \<Rightarrow> m);
          timeSinceLastCall = now - lastClaudeCall this
      in if timeSinceLastCall < claudeRateLimit this
         then (Inr \<lparr>message = fallbackMessage, rateLimited = True\<rparr>, this, [])
         else
           (let this1 = this\<lparr>lastClaudeCall := now\<rparr>;
                started = [Assign_lastClaudeCall now, Agent_run taskDescription]
            in case run taskDescription of
                 Inr _ \<Rightarrow>
                   (Inr \<lparr>message = ''Agent task completed successfully'', rateLimited = False\<rparr>,
                    this1, started)
               | Inl error \<Rightarrow>
                   (case is_rate_limit_error error of
                      Inl typeError \<Rightarrow> (Inl typeError, this1, started)
                    | Inr True \<Rightarrow>
                        (Inr \<lparr>message = fallbackMessage, rateLimited = True\<rparr>,
                         this1\<lparr>lastClaudeCall := now + claudeRateLimit this1\<rparr>,
                         started @ [Assign_lastClaudeCall (now + claudeRateLimit this1)])
                    | Inr False \<Rightarrow> (Inl error, this1, started))))"

text \<open>The fallback outcome: the fallback message, flagged as rate limited.\<close>

definition fallback_of :: "string \<Rightarrow> string option \<Rightarrow> call_result" where
  "fallback_of dflt fallbackArg =
     \<lparr>message = (case fallbackArg of None \<Rightarrow> dflt | Some m \<Rightarrow> m), rateLimited = True\<rparr>"

text \<open>The rate-limit fields as the constructors leave them.\<close>

definition fresh_rate_limit :: rate_limit_fields where
  "fresh_rate_limit = \<lparr>lastClaudeCall = 0, claudeRateLimit = 60000\<rparr>"

section \<open>The booking model (\<open>models/booking.js\<close>)\<close>

text \<open>
  A field that the constructor was not given is \<open>undefined\<close> (\<open>None\<close>). A \<open>Date\<close> is
  its time value in milliseconds; a \<open>Date\<close> object is truthy whatever its time value.
\<close>

record Location =
  city :: "string option"
  country :: "string option"
  isPort :: bool

record Container =
  type_c :: string
  size_c :: string
  quantity :: int
  weightKg :: int

record InlandTransport =
  type_t :: string
  isPickup :: bool

record BookingDetails =
  origin :: "Location option"
  destination :: "Location option"
  originTransport :: "InlandTransport option"
  destinationTransport :: "InlandTransport option"
  containers :: "Container list option"
  commodity :: "string option"
  readyDate :: "int option"
  requiresTemperatureControl :: bool
  isDangerousCargo :: bool
  isPriceOwner :: bool

text \<open>
  \<open>!this.origin || !this.origin.city || !this.origin.country\<close>, the test of the first
  two checks of \<open>validate\<close>.
\<close>

definition location_missing :: "Location option \<Rightarrow> bool" where
  "location_missing loc =
     (case loc of None \<Rightarrow> True | Some l \<Rightarrow> \<not> truthy (city l) \<or> \<not> truthy (country l))"

text \<open>
  \<open>validate()\<close>. The method works on \<open>this\<close> and a local array; it is given as the
  list it returns together with \<open>this\<close> as the method leaves it.
\<close>

definition validate :: "BookingDetails \<Rightarrow> string list \<times> BookingDetails" where
  "validate this =
     (let errors = [];
          errors = (if location_missing (origin this)
                    then errors @ [''Origin location is required''] else errors);
          errors = (if location_missing (destination this)
                    then errors @ [''Destination location is required''] else errors);
          errors = (if (case containers this of None \<Rightarrow> True | Some cs \<Rightarrow> length cs = 0)
                    then errors @ [''At least one container is required''] else errors);
          errors = (if (case commodity this of None \<Rightarrow> True | Some c \<Rightarrow> c = [] \<or> trim c = [])
                    then errors @ [''Commodity is required''] else errors);
          errors = (if readyDate this = None
                    then errors @ [''Ready date is required''] else errors)
      in (errors, this))"

text \<open>\<open>createSampleBooking()\<close>; \<open>now\<close> is the value of \<open>Date.now()\<close>.\<close>

definition createSampleBooking :: "int \<Rightarrow> BookingDetails" where
  "createSampleBooking now =
     \<lparr>origin = Some \<lparr>city = Some ''Houston (Texas)'', country = Some ''United States'', isPort = True\<rparr>,
      destination = Some \<lparr>city = Some ''Iquique'', country = Some ''Chile'', isPort = True\<rparr>,
      originTransport = Some \<lparr>type_t = ''SD'', isPickup = True\<rparr>,
      destinationTransport = Some \<lparr>type_t = ''SD'', isPickup = False\<rparr>,
      containers = Some [\<lparr>type_c = ''DRY'', size_c = ''20'', quantity = 1, weightKg = 4000\<rparr>],
      commodity = Some ''Electronics'',
      readyDate = Some (now + 7 * 24 * 60 * 60 * 1000),
      requiresTemperatureControl = False,
      isDangerousCargo = False,
      isPriceOwner = True\<rparr>"

text \<open>
  The guard at the start of \<open>fillBookingForm(bookingDetails)\<close>:
  \<^verbatim>\<open>const errors = bookingDetails.validate();
  if (errors.length > 0) { throw new Error(`Booking validation failed: ${errors.join(', ')}`); }\<close>
\<close>

definition validation_guard :: "BookingDetails \<Rightarrow> ('s, unit) prog" where
  "validation_guard bookingDetails =
     (let errors = fst (validate bookingDetails)
      in if length errors > 0
         then js_throw (Error (''Booking validation failed: '' @ join '', '' errors))
         else js_return ())"

section \<open>The Stagehand carrier (\<open>MaerskCarrier\<close>)\<close>

text \<open>
  What the program cannot decide is given by the world: the environment variables, the
  clock, and what each call to Stagehand, to the page, to the agent and to the file
  system resolves to or rejects with. The bodies of \<open>hybridLogin\<close> and
  \<open>submitBookingForm\<close> and the form steps of \<open>fillBookingForm\<close> only drive the browser
  and the agent; each is one call whose result the world gives (\<open>hybridLogin\<close> by the
  number of the attempt).
\<close>

record pageElements =
  hasBookingForm :: bool
  hasLocationFields :: bool
  hasContinueButton :: bool
  elementsFound :: "string list"
  pageType :: string
  formReadyForInput :: bool

record formResult =
  form_success :: bool
  canContinue :: bool

record submitResult =
  submit_success :: bool

record structuredRates =
  rates :: "json list"
  totalOptionsFound :: int
  hasRateInformation :: bool
  ratesPageType :: string
  additionalServices :: "json option"
  specialOffers :: "json option"

record rateSummary =
  totalOptions :: int
  hasRates :: bool
  pageAnalyzed :: string

record jsonResult =
  success :: bool
  extractionTimestamp :: string
  source :: string
  claudeAnalysis :: string
  rateData :: structuredRates
  summary :: rateSummary

record world =
  env :: "string \<Rightarrow> string option"
  Date_now :: int
  new_Stagehand :: "js_error + unit"
  stagehand_init :: "js_error + unit"
  stagehand_agent_anthropic :: "js_error + unit"
  stagehand_agent_default :: "js_error + unit"
  stagehand_close :: "js_error + unit"
  page_screenshot :: "string \<Rightarrow> js_error + unit"
  page_url :: string
  page_goto :: "string \<Rightarrow> js_error + unit"
  page_extract_bookingPage :: "js_error + pageElements"
  page_extract_rates :: "js_error + structuredRates"
  agent_execute :: "string \<Rightarrow> js_error + agent_result"
  hybridLogin_body :: "nat \<Rightarrow> js_error + bool"
  fillBookingForm_steps :: "js_error + formResult"
  submitBookingForm_body :: "js_error + submitResult"
  toISOString_extractRates :: string
  toISOString_catch :: string
  writeFile :: "string \<Rightarrow> json \<Rightarrow> js_error + unit"

text \<open>
  The fields of the carrier. \<open>stagehand\<close>, \<open>page\<close> and \<open>agent\<close> are \<open>null\<close> (\<open>False\<close>)
  until \<open>initBrowser\<close> sets them.
\<close>

record MaerskCarrier = rate_limit_fields +
  baseUrl :: string
  username :: "string option"
  password :: "string option"
  stagehand :: bool
  page :: bool
  agent :: bool

text \<open>The constructor; it throws when a credential or the API key is missing.\<close>

definition MaerskCarrier_constructor :: "(string \<Rightarrow> string option) \<Rightarrow> js_error + MaerskCarrier" where
  "MaerskCarrier_constructor environment =
     (let this = \<lparr>lastClaudeCall = 0, claudeRateLimit = 60000,
                  baseUrl = (case environment ''MAERSK_BASE_URL'' of
                               None \<Rightarrow> ''https://www.maersk.com''
                             | Some u \<Rightarrow> if u = [] then ''https://www.maersk.com'' else u),
                  username = environment ''MAERSK_USERNAME'',
                  password = environment ''MAERSK_PASSWORD'',
                  stagehand = False, page = False, agent = False\<rparr>
      in if \<not> truthy (username this) \<or> \<not> truthy (password this)
         then Inl (Error ''MAERSK_USERNAME and MAERSK_PASSWORD must be set in environment variables'')
         else if \<not> truthy (environment ''ANTHROPIC_API_KEY'')
         then Inl (Error ''ANTHROPIC_API_KEY must be set in environment variables for Claude'')
         else Inr this)"

text \<open>
  \<open>initBrowser(headless)\<close>: the Stagehand instance is created and started, the page is
  taken from it, and the agent is created, with the standard agent as the fallback when
  creating the Claude agent throws.
\<close>

definition initBrowser :: "world \<Rightarrow> bool \<Rightarrow> (MaerskCarrier, unit) prog" where
  "initBrowser w headless =
     js_seq (external New_Stagehand (new_Stagehand w)) (\<lambda>_.
     js_seq (js_modify (\<lambda>this. this\<lparr>stagehand := True\<rparr>)) (\<lambda>_.
     js_seq (external Stagehand_init (stagehand_init w)) (\<lambda>_.
     js_seq (js_modify (\<lambda>this. this\<lparr>page := True\<rparr>)) (\<lambda>_.
     js_seq (js_try_catch (external Stagehand_agent (stagehand_agent_anthropic w))
               (\<lambda>error. external Stagehand_agent (stagehand_agent_default w))) (\<lambda>_.
     js_modify (\<lambda>this. this\<lparr>agent := True\<rparr>))))))"

text \<open>\<open>close()\<close>: \<open>if (this.stagehand) { await this.stagehand.close(); }\<close>.\<close>

definition close :: "world \<Rightarrow> (MaerskCarrier, unit) prog" where
  "close w =
     js_seq (external Carrier_close (Inr ())) (\<lambda>_.
     js_get (\<lambda>this. if stagehand this
                     then external Stagehand_close (stagehand_close w)
                     else js_return ()))"

text \<open>\<open>takeScreenshot(filename)\<close>: \<open>if (this.page) { await this.page.screenshot(...); }\<close>.\<close>

definition takeScreenshot :: "world \<Rightarrow> string \<Rightarrow> (MaerskCarrier, unit) prog" where
  "takeScreenshot w filename =
     js_get (\<lambda>this. if page this
                     then external (Page_screenshot filename) (page_screenshot w filename)
                     else js_return ())"

text \<open>A use of \<open>this.page\<close> or of \<open>this.agent\<close> throws while the field is \<open>null\<close>.\<close>

definition with_page :: "string \<Rightarrow> (MaerskCarrier, 'a) prog \<Rightarrow> (MaerskCarrier, 'a) prog" where
  "with_page prop m =
     js_get (\<lambda>this. if page this then m else js_throw (TypeError_reading ''null'' prop))"

definition with_agent :: "string \<Rightarrow> (MaerskCarrier, 'a) prog \<Rightarrow> (MaerskCarrier, 'a) prog" where
  "with_agent prop m =
     js_get (\<lambda>this. if agent this then m else js_throw (TypeError_reading ''null'' prop))"

definition hybridLogin :: "world \<Rightarrow> nat \<Rightarrow> (MaerskCarrier, bool) prog" where
  "hybridLogin w attempt = external HybridLogin_body (hybridLogin_body w attempt)"

definition bookingPage_instruction :: string where
  "bookingPage_instruction = ''Analyze this Maersk booking page and identify all form elements''"

definition verifyBookingPage :: "world \<Rightarrow> (MaerskCarrier, pageElements) prog" where
  "verifyBookingPage w =
     js_try_catch
       (with_page ''extract'' (external (Page_extract bookingPage_instruction) (page_extract_bookingPage w)))
       (\<lambda>error. js_throw error)"

text \<open>
  \<open>fillBookingForm(bookingDetails)\<close>: the validation guard, then the form steps; an error
  of either is rethrown after a screenshot.
\<close>

definition fillBookingForm :: "world \<Rightarrow> BookingDetails \<Rightarrow> (MaerskCarrier, formResult) prog" where
  "fillBookingForm w bookingDetails =
     js_try_catch
       (js_seq (validation_guard bookingDetails) (\<lambda>_.
        external FillBookingForm_steps (fillBookingForm_steps w)))
       (\<lambda>error. js_seq (takeScreenshot w ''error_form_filling_targeted.png'') (\<lambda>_.
                 js_throw error))"

definition submitBookingForm :: "world \<Rightarrow> (MaerskCarrier, submitResult) prog" where
  "submitBookingForm w = external SubmitBookingForm_body (submitBookingForm_body w)"

text \<open>
  \<open>extractRates()\<close>: the agent analyses the page, the page extracts the rates, and the
  result object is built; an error is rethrown after a screenshot. The prompt is the
  text of the template literal as it stands between the backquotes: it starts with a
  line break, every line is indented by 16 spaces, and it ends with a line break and
  12 spaces.
\<close>

definition rate_analysis_prompt :: string where
  "rate_analysis_prompt =
     [CHR 0x0A] @
     ''                Analyze this shipping rates page and provide a comprehensive summary of all available options.''
     @ [CHR 0x0A] @
     ''                Look for service types, prices, transit times, departure dates, and any special offers.''
     @ [CHR 0x0A] @
     ''                Identify the best value options and any premium services available.''
     @ [CHR 0x0A] @
     ''                No need to click on Price breakdowns and details, just extract the data available.''
     @ [CHR 0x0A] @
     ''            ''"

definition rates_instruction :: string where
  "rates_instruction = ''Extract all shipping rates and service details in a structured format''"

definition extractRates :: "world \<Rightarrow> (MaerskCarrier, jsonResult) prog" where
  "extractRates w =
     js_try_catch
       (js_seq (with_agent ''execute''
                  (external (Agent_execute rate_analysis_prompt) (agent_execute w rate_analysis_prompt)))
          (\<lambda>rateAnalysis.
        js_seq (with_page ''extract'' (external (Page_extract rates_instruction) (page_extract_rates w)))
          (\<lambda>structuredRates.
        js_return
          \<lparr>success = True,
           extractionTimestamp = toISOString_extractRates w,
           source = ''Maersk.com'',
           claudeAnalysis = result_message rateAnalysis,
           rateData = structuredRates,
           summary = \<lparr>totalOptions = totalOptionsFound structuredRates,
                      hasRates = hasRateInformation structuredRates,
                      pageAnalyzed = ratesPageType structuredRates\<rparr>\<rparr>)))
       (\<lambda>error. js_seq (takeScreenshot w ''error_rate_extraction_claude.png'') (\<lambda>_.
                 js_throw error))"

section \<open>Result documents\<close>

text \<open>
  \<open>JSON.stringify(value, null, 2)\<close> is given by the JSON value the text denotes. A
  property whose value is \<open>undefined\<close> (an optional field that was not extracted) is
  left out of the text.
\<close>

definition json_of_structuredRates :: "structuredRates \<Rightarrow> json" where
  "json_of_structuredRates sr =
     JObject ([(''rates'', JArray (rates sr)),
               (''totalOptionsFound'', JNumber (totalOptionsFound sr)),
               (''hasRateInformation'', JBool (hasRateInformation sr)),
               (''pageType'', JString (ratesPageType sr))]
              @ (case additionalServices sr of None \<Rightarrow> [] | Some a \<Rightarrow> [(''additionalServices'', a)])
              @ (case specialOffers sr of None \<Rightarrow> [] | Some a \<Rightarrow> [(''specialOffers'', a)]))"

definition json_of_jsonResult :: "jsonResult \<Rightarrow> json" where
  "json_of_jsonResult r =
     JObject [(''success'', JBool (success r)),
              (''extractionTimestamp'', JString (extractionTimestamp r)),
              (''source'', JString (source r)),
              (''claudeAnalysis'', JString (claudeAnalysis r)),
              (''rateData'', json_of_structuredRates (rateData r)),
              (''summary'', JObject [(''totalOptions'', JNumber (totalOptions (summary r))),
                                     (''hasRates'', JBool (hasRates (summary r))),
                                     (''pageAnalyzed'', JString (pageAnalyzed (summary r)))])]"

text \<open>
  The \<open>errorResult\<close> of the \<open>catch\<close> block of \<open>extractMaerskRates\<close>, as
  \<open>JSON.stringify\<close> writes it: its property \<^verbatim>\<open>error: error.message\<close> is left out
  when \<open>error.message\<close> is \<open>undefined\<close>.
\<close>

definition errorResult :: "world \<Rightarrow> js_error \<Rightarrow> json" where
  "errorResult w error =
     JObject ([(''success'', JBool False)]
              @ (case message_of error of None \<Rightarrow> [] | Some msg \<Rightarrow> [(''error'', JString msg)])
              @ [(''extractionTimestamp'', JString (toISOString_catch w)),
                 (''summary'', JObject [(''totalOptions'', JNumber 0),
                                        (''pageAnalyzed'', JString ''Error occurred'')])])"

text \<open>The object \<open>extractMaerskRates\<close> returns on success.\<close>

definition successResult :: "jsonResult \<Rightarrow> json" where
  "successResult rateResults =
     JObject [(''success'', JBool True),
              (''summary'', JObject [(''totalOptions'', JNumber (totalOptionsFound (rateData rateResults))),
                                     (''pageAnalyzed'', JString (ratesPageType (rateData rateResults)))]),
              (''rateData'', json_of_structuredRates (rateData rateResults)),
              (''claudeAnalysis'', JString (claudeAnalysis rateResults)),
              (''extractionTimestamp'', JString (extractionTimestamp rateResults))]"

text \<open>Reading a property of an object: \<open>None\<close> is \<open>undefined\<close>.\<close>

fun get_prop :: "json \<Rightarrow> string \<Rightarrow> json option" where
  "get_prop (JObject props) key = map_of props key"
| "get_prop _ key = None"

section \<open>The login loop\<close>

text \<open>
  The loop of \<open>extractMaerskRates\<close> and of \<open>main\<close> in \<open>main.js\<close>:
  \<^verbatim>\<open>for (let attempt = 1; attempt <= maxLoginAttempts && !loginSuccess; attempt++) {
    try { loginSuccess = await carrier.hybridLogin(); }
    catch (loginError) {
      if (attempt < maxLoginAttempts) { await new Promise(r => setTimeout(r, 3000)); }
      else { throw loginError; } } }\<close>
  \<open>loginAttempt\<close> is the body of the loop: its value is \<open>loginSuccess\<close> after it.
\<close>

definition loginAttempt ::
  "(nat \<Rightarrow> ('s, bool) prog) \<Rightarrow> nat \<Rightarrow> nat \<Rightarrow> bool \<Rightarrow> ('s, bool) prog" where
  "loginAttempt login maxLoginAttempts attempt loginSuccess =
     js_try_catch (login attempt)
       (\<lambda>loginError. if attempt < maxLoginAttempts
                      then js_seq (sleep 3000) (\<lambda>_. js_return loginSuccess)
                      else js_throw loginError)"

function loginLoop ::
  "(nat \<Rightarrow> ('s, bool) prog) \<Rightarrow> nat \<Rightarrow> nat \<Rightarrow> bool \<Rightarrow> ('s, bool) prog" where
  "loginLoop login maxLoginAttempts attempt loginSuccess s =
     (if attempt \<le> maxLoginAttempts \<and> \<not> loginSuccess
      then (case loginAttempt login maxLoginAttempts attempt loginSuccess s of
              (Inl e, s1, t1) \<Rightarrow> (Inl e, s1, t1)
            | (Inr loginSuccess1, s1, t1) \<Rightarrow>
                (case loginLoop login maxLoginAttempts (attempt + 1) loginSuccess1 s1 of
                   (r, s2, t2) \<Rightarrow> (r, s2, t1 @ t2)))
      else (Inr loginSuccess, s, []))"
  by pat_completeness auto
termination
  by (relation "measure (\<lambda>(login, maxLoginAttempts, attempt, loginSuccess, s).
                           maxLoginAttempts + 1 - attempt)") auto

declare loginLoop.simps [simp del]

section \<open>The extraction pipeline (\<open>extractMaerskRates\<close>)\<close>

text \<open>
  The state of the function is its variable \<open>carrier\<close>: \<open>undefined\<close> (\<open>None\<close>) until
  the constructor has returned. Calling a method of \<open>undefined\<close> throws.
\<close>

definition on_carrier :: "string \<Rightarrow> (MaerskCarrier, 'a) prog \<Rightarrow> (MaerskCarrier option, 'a) prog" where
  "on_carrier method m =
     (\<lambda>carrier. case carrier of
                  None \<Rightarrow> (Inl (TypeError_reading ''undefined'' method), None, [])
                | Some this \<Rightarrow> (case m this of (r, this1, t) \<Rightarrow> (r, Some this1, t)))"

text \<open>\<open>carrier = new MaerskCarrier()\<close>.\<close>

definition new_MaerskCarrier :: "world \<Rightarrow> (MaerskCarrier option, unit) prog" where
  "new_MaerskCarrier w =
     (\<lambda>carrier. case MaerskCarrier_constructor (env w) of
                  Inl e \<Rightarrow> (Inl e, carrier, [])
                | Inr this \<Rightarrow> (Inr (), Some this, []))"

text \<open>\<open>carrier.page.url()\<close> and \<open>await carrier.page.goto(`${carrier.baseUrl}/book/`)\<close>.\<close>

definition carrier_page_url :: "world \<Rightarrow> (MaerskCarrier option, string) prog" where
  "carrier_page_url w = on_carrier ''page'' (with_page ''url'' (js_return (page_url w)))"

definition goto_book :: "world \<Rightarrow> (MaerskCarrier option, unit) prog" where
  "goto_book w =
     on_carrier ''page''
       (with_page ''goto''
          (js_get (\<lambda>this. external (Page_goto (baseUrl this @ ''/book/''))
                            (page_goto w (baseUrl this @ ''/book/'')))))"

definition results_file :: string where
  "results_file = ''maersk-rates.json''"

text \<open>
  The statements of the \<open>try\<close> block, from the innermost block outwards: the rate
  extraction with the writing of the results file (the block of
  \<open>if (submitResult.success)\<close>), the submission (the block of
  \<open>if (formResult.canContinue)\<close>), the form filling (the block of
  \<open>if (pageAnalysis.hasBookingForm && pageAnalysis.hasLocationFields)\<close>), the stages
  from the start of the browser to the page analysis, and the statements up to the
  construction of the carrier.
\<close>

definition save_rates :: "world \<Rightarrow> (MaerskCarrier option, json) prog" where
  "save_rates w =
     js_seq (on_carrier ''extractRates'' (extractRates w)) (\<lambda>rateResults.
     js_seq (external (WriteFile results_file (json_of_jsonResult rateResults))
               (writeFile w results_file (json_of_jsonResult rateResults))) (\<lambda>_.
     js_return (successResult rateResults)))"

definition submit_form :: "world \<Rightarrow> (MaerskCarrier option, json) prog" where
  "submit_form w =
     js_seq (on_carrier ''submitBookingForm'' (submitBookingForm w)) (\<lambda>submitResult.
     if submit_success submitResult
     then save_rates w
     else js_throw (Error ''Form submission failed''))"

definition fill_form :: "world \<Rightarrow> BookingDetails \<Rightarrow> (MaerskCarrier option, json) prog" where
  "fill_form w booking =
     js_seq (on_carrier ''fillBookingForm'' (fillBookingForm w booking)) (\<lambda>formResult.
     if canContinue formResult
     then submit_form w
     else js_throw (Error ''No continue button found - form may need manual review''))"

definition extract_stages :: "world \<Rightarrow> BookingDetails \<Rightarrow> (MaerskCarrier option, json) prog" where
  "extract_stages w booking =
     js_seq (on_carrier ''initBrowser'' (initBrowser w False)) (\<lambda>_.
     js_seq (loginLoop (\<lambda>attempt. on_carrier ''hybridLogin'' (hybridLogin w attempt)) 2 1 False)
       (\<lambda>loginSuccess.
     js_seq (if \<not> loginSuccess
             then js_throw (Error ''All Claude login attempts failed'')
             else js_return ()) (\<lambda>_.
     js_seq (carrier_page_url w) (\<lambda>currentUrl.
     js_seq (if \<not> str_includes currentUrl ''/book''
             then js_seq (goto_book w) (\<lambda>_. sleep 2000)
             else js_return ()) (\<lambda>_.
     js_seq (on_carrier ''verifyBookingPage'' (verifyBookingPage w)) (\<lambda>pageAnalysis.
     if hasBookingForm pageAnalysis \<and> hasLocationFields pageAnalysis
     then fill_form w booking
     else js_throw (Error ''Expected booking form elements not found'')))))))"

definition extract_try :: "world \<Rightarrow> (MaerskCarrier option, json) prog" where
  "extract_try w =
     js_seq (if \<not> truthy (env w ''MAERSK_USERNAME'') \<or> \<not> truthy (env w ''MAERSK_PASSWORD'')
             then js_throw (Error ''Missing MAERSK_USERNAME or MAERSK_PASSWORD in environment variables'')
             else js_return ()) (\<lambda>_.
     js_seq (if \<not> truthy (env w ''ANTHROPIC_API_KEY'')
             then js_throw (Error ''Missing ANTHROPIC_API_KEY in environment variables'')
             else js_return ()) (\<lambda>_.
     let booking = createSampleBooking (Date_now w) in
     js_seq (new_MaerskCarrier w) (\<lambda>_.
     extract_stages w booking)))"

text \<open>
  The \<open>catch\<close> block: a screenshot when there is a page (its error is swallowed), the
  error document, and the error thrown again.
\<close>

definition extract_catch :: "world \<Rightarrow> js_error \<Rightarrow> (MaerskCarrier option, json) prog" where
  "extract_catch w error =
     js_seq (js_get (\<lambda>carrier.
               if (case carrier of None \<Rightarrow> False | Some this \<Rightarrow> page this)
               then js_try_catch
                      (on_carrier ''takeScreenshot'' (takeScreenshot w ''error_claude_extraction.png''))
                      (\<lambda>screenshotError. js_return ())
               else js_return ())) (\<lambda>_.
     js_seq (external (WriteFile results_file (errorResult w error))
               (writeFile w results_file (errorResult w error))) (\<lambda>_.
     js_throw error))"

text \<open>The \<open>finally\<close> block: the carrier is closed when there is one; an error of
  \<open>close\<close> is swallowed.\<close>

definition extract_finally :: "world \<Rightarrow> (MaerskCarrier option, unit) prog" where
  "extract_finally w =
     js_get (\<lambda>carrier.
       if carrier \<noteq> None
       then js_try_catch (on_carrier ''close'' (close w)) (\<lambda>cleanupError. js_return ())
       else js_return ())"

definition extractMaerskRates_prog :: "world \<Rightarrow> (MaerskCarrier option, json) prog" where
  "extractMaerskRates_prog w =
     js_try_finally (js_try_catch (extract_try w) (extract_catch w)) (extract_finally w)"

text \<open>A call of \<open>extractMaerskRates()\<close>: what it returns or throws, and its effects.\<close>

definition extractMaerskRates :: "world \<Rightarrow> (js_error + json) \<times> effect list" where
  "extractMaerskRates w = (case extractMaerskRates_prog w None of (r, carrier, t) \<Rightarrow> (r, t))"

section \<open>The entry points\<close>

text \<open>
  A run of an entry point ends by \<open>process.exit(code)\<close>, or its \<open>main\<close> returns and
  the process ends by itself, with the exit code 0 of a process that nothing failed.
\<close>

datatype process_end = Returned | Exited int

fun exit_code :: "process_end \<Rightarrow> int" where
  "exit_code Returned = 0"
| "exit_code (Exited code) = code"

text \<open>
  \<open>main\<close> of the Claude entry point: the required variables are checked, then the
  pipeline runs; the summary it prints reads \<open>result.summary.totalOptions\<close> and
  \<open>result.summary.pageAnalyzed\<close>. Every error is caught and ends the process with 1.
\<close>

definition print_summary :: "json \<Rightarrow> js_error + unit" where
  "print_summary result =
     (case get_prop result ''summary'' of
        None \<Rightarrow> Inl (TypeError_reading ''undefined'' ''totalOptions'')
      | Some JNull \<Rightarrow> Inl (TypeError_reading ''null'' ''totalOptions'')
      | Some _ \<Rightarrow> Inr ())"

definition claude_main :: "world \<Rightarrow> process_end \<times> effect list" where
  "claude_main w =
     (let requiredVars = [''MAERSK_USERNAME'', ''MAERSK_PASSWORD'', ''ANTHROPIC_API_KEY''];
          missingVars = filter (\<lambda>envVar. \<not> truthy (env w envVar)) requiredVars
      in if length missingVars > 0
         then (Exited 1, [])
         else (case extractMaerskRates w of
                 (Inl error, t) \<Rightarrow> (Exited 1, t)
               | (Inr result, t) \<Rightarrow>
                   (case print_summary result of
                      Inl error \<Rightarrow> (Exited 1, t)
                    | Inr _ \<Rightarrow> (Returned, t))))"

text \<open>
  \<open>main\<close> of \<open>main.js\<close>. The rate extraction (lines 141 to 165): the object that
  \<open>extractRates\<close> returns has no property \<open>detailedRates\<close>, so reading
  \<open>rateResults.detailedRates.hasRateInformation\<close> throws a \<open>TypeError\<close>; the \<open>catch\<close>
  around the block logs it, as it logs an error of \<open>extractRates\<close> itself.
\<close>

definition main_js_rates :: "world \<Rightarrow> (MaerskCarrier option, unit) prog" where
  "main_js_rates w =
     js_try_catch
       (js_seq (on_carrier ''extractRates'' (extractRates w)) (\<lambda>rateResults.
        js_throw (TypeError_reading ''undefined'' ''hasRateInformation'')))
       (\<lambda>rateError. js_return ())"

text \<open>
  Form filling and submission (lines 119 to 179): an error is logged and a screenshot
  is taken; a form that cannot be continued or submitted is only reported.
\<close>

definition main_js_form :: "world \<Rightarrow> BookingDetails \<Rightarrow> (MaerskCarrier option, unit) prog" where
  "main_js_form w booking =
     js_try_catch
       (js_seq (on_carrier ''fillBookingForm'' (fillBookingForm w booking)) (\<lambda>formResult.
        if canContinue formResult
        then js_seq (on_carrier ''submitBookingForm'' (submitBookingForm w)) (\<lambda>submitResult.
             if submit_success submitResult then main_js_rates w else js_return ())
        else js_return ()))
       (\<lambda>formError. on_carrier ''takeScreenshot'' (takeScreenshot w ''error_form_filling.png''))"

text \<open>
  The \<open>try\<close> block after the checks of the environment: the construction of the
  carrier, then the stages that use it. \<open>return\<close> after the login loop ends the
  function when no attempt has logged in.
\<close>

definition main_js_stages :: "world \<Rightarrow> BookingDetails \<Rightarrow> (MaerskCarrier option, unit) prog" where
  "main_js_stages w booking =
     js_seq (on_carrier ''initBrowser'' (initBrowser w False)) (\<lambda>_.
     js_seq (loginLoop (\<lambda>attempt. on_carrier ''hybridLogin'' (hybridLogin w attempt)) 2 1 False)
       (\<lambda>loginSuccess.
     if \<not> loginSuccess
     then js_return ()
     else
       js_seq (sleep 3000) (\<lambda>_.
       js_seq (carrier_page_url w) (\<lambda>currentUrl.
       js_seq (if \<not> str_includes currentUrl ''/book'' then goto_book w else js_return ()) (\<lambda>_.
       js_seq (on_carrier ''verifyBookingPage'' (verifyBookingPage w)) (\<lambda>pageAnalysis.
       js_seq (if hasBookingForm pageAnalysis \<and> hasLocationFields pageAnalysis
               then main_js_form w booking
               else on_carrier ''takeScreenshot'' (takeScreenshot w ''debug_no_booking_form.png''))
         (\<lambda>_.
       js_seq (sleep 60000) (\<lambda>_.
       on_carrier ''close'' (close w)))))))))"

definition main_js_try :: "world \<Rightarrow> (MaerskCarrier option, unit) prog" where
  "main_js_try w =
     (let booking = createSampleBooking (Date_now w) in
      js_seq (new_MaerskCarrier w) (\<lambda>_.
      main_js_stages w booking))"

text \<open>
  \<open>main\<close>: a missing credential or API key ends the process with 1 before anything
  else happens. The \<open>catch\<close> block finds no \<open>carrier\<close> (the constant is declared
  inside the \<open>try\<close> block, so \<open>typeof carrier\<close> is \<open>'undefined'\<close> there), takes no
  screenshot, closes nothing and ends the process with 1.
\<close>

definition main_js :: "world \<Rightarrow> process_end \<times> effect list" where
  "main_js w =
     (if \<not> truthy (env w ''MAERSK_USERNAME'') \<or> \<not> truthy (env w ''MAERSK_PASSWORD'')
      then (Exited 1, [])
      else if \<not> truthy (env w ''OPENAI_API_KEY'')
      then (Exited 1, [])
      else (case main_js_try w None of
              (Inl error, carrier, t) \<Rightarrow> (Exited 1, t)
            | (Inr _, carrier, t) \<Rightarrow> (Returned, t)))"

section \<open>Vocabulary for the properties\<close>

text \<open>
  \<open>keeps I P Q m\<close>: started in a state where \<open>I\<close> holds, \<open>m\<close> ends in a state
  where \<open>I\<close> holds, has only effects for which \<open>P\<close> holds and, when it returns,
  returns a value for which \<open>Q\<close> holds.
\<close>

definition keeps ::
  "('s \<Rightarrow> bool) \<Rightarrow> (effect \<Rightarrow> bool) \<Rightarrow> ('a \<Rightarrow> bool) \<Rightarrow> ('s, 'a) prog \<Rightarrow> bool" where
  "keeps I P Q m =
     (\<forall>s. I s \<longrightarrow>
        I (fst (snd (m s))) \<and> (\<forall>ev \<in> set (snd (snd (m s))). P ev)
        \<and> (\<forall>x. fst (m s) = Inr x \<longrightarrow> Q x))"

text \<open>The effects other than closing the carrier and writing a file.\<close>

fun quiet :: "effect \<Rightarrow> bool" where
  "quiet Carrier_close = False"
| "quiet (WriteFile path text) = False"
| "quiet _ = True"

text \<open>The three required variables of the Claude pipeline are set.\<close>

definition claude_config_ok :: "world \<Rightarrow> bool" where
  "claude_config_ok w =
     (truthy (env w ''MAERSK_USERNAME'') \<and> truthy (env w ''MAERSK_PASSWORD'')
      \<and> truthy (env w ''ANTHROPIC_API_KEY''))"

text \<open>
  The shape of a result document: \<open>success\<close> is a boolean, \<open>extractionTimestamp\<close> is
  the string that \<open>toISOString()\<close> gave where the document was built, \<open>summary\<close> is an
  object, and the \<open>error\<close> of a document whose \<open>success\<close> is \<open>false\<close> is a string,
  when the document has this property at all.
\<close>

definition result_document :: "world \<Rightarrow> json \<Rightarrow> bool" where
  "result_document w doc =
     ((get_prop doc ''success'' = Some (JBool True)
         \<and> get_prop doc ''extractionTimestamp'' = Some (JString (toISOString_extractRates w))
       \<or> get_prop doc ''success'' = Some (JBool False)
         \<and> get_prop doc ''extractionTimestamp'' = Some (JString (toISOString_catch w))
         \<and> (get_prop doc ''error'' = None \<or> (\<exists>m. get_prop doc ''error'' = Some (JString m))))
      \<and> (\<exists>props. get_prop doc ''summary'' = Some (JObject props)))"

text \<open>What is known of an object that \<open>extractRates\<close> has returned.\<close>

definition extractRates_result :: "world \<Rightarrow> jsonResult \<Rightarrow> bool" where
  "extractRates_result w r =
     (success r \<and> extractionTimestamp r = toISOString_extractRates w \<and> source r = ''Maersk.com''
      \<and> summary r = \<lparr>totalOptions = totalOptionsFound (rateData r),
                       hasRates = hasRateInformation (rateData r),
                       pageAnalyzed = ratesPageType (rateData r)\<rparr>)"

text \<open>The object is one that the pipeline returns on success.\<close>

definition is_successResult :: "json \<Rightarrow> bool" where
  "is_successResult result = (\<exists>rateResults. result = successResult rateResults)"

text \<open>What \<open>P\<close> says of the documents that are written; other effects are free.\<close>

fun writes_only :: "(string \<Rightarrow> json \<Rightarrow> bool) \<Rightarrow> effect \<Rightarrow> bool" where
  "writes_only P (WriteFile path doc) = P path doc"
| "writes_only P _ = True"

text \<open>What a program returns or throws and the state it ends in, without its effects.\<close>

definition final :: "('s, 'a) prog \<Rightarrow> 's \<Rightarrow> (js_error + 'a) \<times> 's" where
  "final m s = (fst (m s), fst (snd (m s)))"

text \<open>
  The stages of a run, as answers of the world: the browser starts (the Claude agent
  or the standard agent can be created), a login attempt returns \<open>true\<close> (the second
  one is made when the first has thrown or returned \<open>false\<close>), the browser is on the
  booking page or gets there, the page analysis finds the booking form and its location
  fields, the form steps end with a form that can be continued, the submission reports
  success, and the rates are analysed, extracted and written to the results file.
\<close>

definition browser_starts :: "world \<Rightarrow> bool" where
  "browser_starts w =
     (new_Stagehand w = Inr () \<and> stagehand_init w = Inr ()
      \<and> (stagehand_agent_anthropic w = Inr () \<or> stagehand_agent_default w = Inr ()))"

definition login_succeeds :: "world \<Rightarrow> bool" where
  "login_succeeds w =
     (hybridLogin_body w 1 = Inr True
      \<or> hybridLogin_body w 1 \<noteq> Inr True \<and> hybridLogin_body w 2 = Inr True)"

definition book_url :: "world \<Rightarrow> string" where
  "book_url w =
     (case env w ''MAERSK_BASE_URL'' of
        None \<Rightarrow> ''https://www.maersk.com''
      | Some u \<Rightarrow> if u = [] then ''https://www.maersk.com'' else u) @ ''/book/''"

definition booking_page_reached :: "world \<Rightarrow> bool" where
  "booking_page_reached w =
     (str_includes (page_url w) ''/book'' \<or> page_goto w (book_url w) = Inr ())"

definition booking_form_found :: "world \<Rightarrow> bool" where
  "booking_form_found w =
     (\<exists>pageAnalysis. page_extract_bookingPage w = Inr pageAnalysis
        \<and> hasBookingForm pageAnalysis \<and> hasLocationFields pageAnalysis)"

definition form_filled :: "world \<Rightarrow> bool" where
  "form_filled w = (\<exists>formResult. fillBookingForm_steps w = Inr formResult \<and> canContinue formResult)"

definition form_submitted :: "world \<Rightarrow> bool" where
  "form_submitted w =
     (\<exists>submitResult. submitBookingForm_body w = Inr submitResult \<and> submit_success submitResult)"

definition rates_saved :: "world \<Rightarrow> bool" where
  "rates_saved w =
     (\<exists>rateAnalysis structuredRates.
        agent_execute w rate_analysis_prompt = Inr rateAnalysis
        \<and> page_extract_rates w = Inr structuredRates
        \<and> writeFile w results_file
             (json_of_jsonResult
                \<lparr>success = True,
                 extractionTimestamp = toISOString_extractRates w,
                 source = ''Maersk.com'',
                 claudeAnalysis = result_message rateAnalysis,
                 rateData = structuredRates,
                 summary = \<lparr>totalOptions = totalOptionsFound structuredRates,
                            hasRates = hasRateInformation structuredRates,
                            pageAnalyzed = ratesPageType structuredRates\<rparr>\<rparr>) = Inr ())"

text \<open>The full pipeline succeeds: the configuration is there and every stage succeeds.\<close>

definition pipeline_succeeds :: "world \<Rightarrow> bool" where
  "pipeline_succeeds w =
     (claude_config_ok w \<and> browser_starts w \<and> login_succeeds w \<and> booking_page_reached w
      \<and> booking_form_found w \<and> form_filled w \<and> form_submitted w \<and> rates_saved w)"

text \<open>The variables that \<open>main.js\<close> checks are set.\<close>

definition main_js_config_ok :: "world \<Rightarrow> bool" where
  "main_js_config_ok w =
     (truthy (env w ''MAERSK_USERNAME'') \<and> truthy (env w ''MAERSK_PASSWORD'')
      \<and> truthy (env w ''OPENAI_API_KEY''))"

section \<open>A world for the examples\<close>

text \<open>
  A run in which the credentials and both API keys are set, the browser starts on the
  booking page, and every call to the outside succeeds. The examples below change one
  answer of this world at a time.
\<close>

definition sample_env :: "string \<Rightarrow> string option" where
  "sample_env name =
     (if name = ''MAERSK_USERNAME'' then Some ''user''
      else if name = ''MAERSK_PASSWORD'' then Some ''secret''
      else if name = ''ANTHROPIC_API_KEY'' then Some ''key-a''
      else if name = ''OPENAI_API_KEY'' then Some ''key-o''
      else None)"

definition sample_rates :: structuredRates where
  "sample_rates =
     \<lparr>rates = [], totalOptionsFound = 3, hasRateInformation = True,
      ratesPageType = ''rates'', additionalServices = None, specialOffers = None\<rparr>"

definition sample_world :: world where
  "sample_world =
     \<lparr>env = sample_env, Date_now = 0,
      new_Stagehand = Inr (), stagehand_init = Inr (),
      stagehand_agent_anthropic = Inr (), stagehand_agent_default = Inr (),
      stagehand_close = Inr (),
      page_screenshot = (\<lambda>filename. Inr ()),
      page_url = ''https://www.maersk.com/book/'',
      page_goto = (\<lambda>url. Inr ()),
      page_extract_bookingPage =
        Inr \<lparr>hasBookingForm = True, hasLocationFields = True, hasContinueButton = True,
             elementsFound = [], pageType = ''booking'', formReadyForInput = True\<rparr>,
      page_extract_rates = Inr sample_rates,
      agent_execute = (\<lambda>task. Inr (AgentResult ''three options'')),
      hybridLogin_body = (\<lambda>attempt. Inr True),
      fillBookingForm_steps = Inr \<lparr>form_success = True, canContinue = True\<rparr>,
      submitBookingForm_body = Inr \<lparr>submit_success = True\<rparr>,
      toISOString_extractRates = ''2025-01-01T00:00:00.000Z'',
      toISOString_catch = ''2025-01-01T00:01:00.000Z'',
      writeFile = (\<lambda>path text. Inr ())\<rparr>"

text \<open>The carrier the constructor builds in this world.\<close>

definition sample_carrier :: MaerskCarrier where
  "sample_carrier =
     \<lparr>lastClaudeCall = 0, claudeRateLimit = 60000,
      baseUrl = ''https://www.maersk.com'', username = Some ''user'', password = Some ''secret'',
      stagehand = False, page = False, agent = False\<rparr>"

section \<open>Properties of the rate-limited agent call\<close>

lemma denied_claude:
  "now - lastClaudeCall this < claudeRateLimit this \<Longrightarrow>
   claudeCallWithRateLimit execute now task fb this = (Inr (fallback_of claude_fallback_default fb), this, [])"
  by (simp add: claudeCallWithRateLimit_def fallback_of_def Let_def)

lemma denied_agent:
  "now - lastClaudeCall this < claudeRateLimit this \<Longrightarrow>
   agentCallWithRateLimit run now task fb this = (Inr (fallback_of agent_fallback_default fb), this, [])"
  by (simp add: agentCallWithRateLimit_def fallback_of_def Let_def)

lemma allowed_claude:
  "claudeRateLimit this \<le> now - lastClaudeCall this \<Longrightarrow>
   claudeCallWithRateLimit execute now task fb this =
     (case execute task of
        Inr result \<Rightarrow>
          (Inr \<lparr>message = result_message result, rateLimited = False\<rparr>,
           this\<lparr>lastClaudeCall := now\<rparr>,
           [Assign_lastClaudeCall now, Agent_execute task])
      | Inl error \<Rightarrow>
          (case is_rate_limit_error error of
             Inl typeError \<Rightarrow>
               (Inl typeError, this\<lparr>lastClaudeCall := now\<rparr>,
                [Assign_lastClaudeCall now, Agent_execute task])
           | Inr True \<Rightarrow>
               (Inr (fallback_of claude_fallback_default fb),
                this\<lparr>lastClaudeCall := now + claudeRateLimit this\<rparr>,
                [Assign_lastClaudeCall now, Agent_execute task,
                 Assign_lastClaudeCall (now + claudeRateLimit this)])
           | Inr False \<Rightarrow>
               (Inl error, this\<lparr>lastClaudeCall := now\<rparr>,
                [Assign_lastClaudeCall now, Agent_execute task])))"
  by (simp add: claudeCallWithRateLimit_def fallback_of_def Let_def split: sum.splits bool.splits)

lemma allowed_agent:
  "claudeRateLimit this \<le> now - lastClaudeCall this \<Longrightarrow>
   agentCallWithRateLimit run now task fb this =
     (case run task of
        Inr result \<Rightarrow>
          (Inr \<lparr>message = ''Agent task completed successfully'', rateLimited = False\<rparr>,
           this\<lparr>lastClaudeCall := now\<rparr>,
           [Assign_lastClaudeCall now, Agent_run task])
      | Inl error \<Rightarrow>
          (case is_rate_limit_error error of
             Inl typeError \<Rightarrow>
               (Inl typeError, this\<lparr>lastClaudeCall := now\<rparr>,
                [Assign_lastClaudeCall now, Agent_run task])
           | Inr True \<Rightarrow>
               (Inr (fallback_of agent_fallback_default fb),
                this\<lparr>lastClaudeCall := now + claudeRateLimit this\<rparr>,
                [Assign_lastClaudeCall now, Agent_run task,
                 Assign_lastClaudeCall (now + claudeRateLimit this)])
           | Inr False \<Rightarrow>
               (Inl error, this\<lparr>lastClaudeCall := now\<rparr>,
                [Assign_lastClaudeCall now, Agent_run task])))"
  by (simp add: agentCallWithRateLimit_def fallback_of_def Let_def split: sum.splits bool.splits)


lemma not_rate_limit_error_timeout: "is_rate_limit_error (Error ''timeout'') = Inr False"
  by (simp add: is_rate_limit_error_def startsWith_def)

text \<open>
  The test has a truth value exactly for the caught values that have a message; for a
  value without one it throws, and the \<open>TypeError\<close> leaves the helper in place of the
  value caught.
\<close>

lemma is_rate_limit_error_Error:
  "is_rate_limit_error (Error msg) = Inr (str_includes msg ''429'' \<or> str_includes msg ''rate_limit'')"
  by (simp add: is_rate_limit_error_def)

lemma is_rate_limit_error_Thrown:
  "is_rate_limit_error (Thrown v) = Inl (TypeError_reading ''undefined'' ''includes'')"
  by (simp add: is_rate_limit_error_def)

lemma is_rate_limit_error_cases:
  "(\<exists>b. is_rate_limit_error e = Inr b) = (message_of e \<noteq> None)"
  by (cases e) (simp_all add: is_rate_limit_error_def)

text \<open>
  An allowed call whose agent rejects with a value that has no message: the
  \<open>TypeError\<close> of the test is what the helper throws, and \<open>lastClaudeCall\<close> stays at
  \<open>now\<close>.
\<close>

lemma value_without_message_in_the_helpers:
  assumes "claudeRateLimit this \<le> now - lastClaudeCall this"
  shows "execute task = Inl (Thrown v) \<Longrightarrow>
           claudeCallWithRateLimit execute now task fb this
             = (Inl (TypeError_reading ''undefined'' ''includes''), this\<lparr>lastClaudeCall := now\<rparr>,
                [Assign_lastClaudeCall now, Agent_execute task])"
    and "run task = Inl (Thrown v) \<Longrightarrow>
           agentCallWithRateLimit run now task fb this
             = (Inl (TypeError_reading ''undefined'' ''includes''), this\<lparr>lastClaudeCall := now\<rparr>,
                [Assign_lastClaudeCall now, Agent_run task])"
  using assms
  by (simp_all add: allowed_claude allowed_agent is_rate_limit_error_Thrown)

text \<open>
  C1. A call made when less than \<open>claudeRateLimit\<close> milliseconds have passed since
  \<open>lastClaudeCall\<close> is denied: both helpers return the fallback outcome (the fallback
  message with \<open>rateLimited: true\<close>) and have no effect at all, so the external agent
  is not invoked.
\<close>

theorem rate_limit_check_denies:
  assumes "now - lastClaudeCall this < claudeRateLimit this"
  shows "fst (claudeCallWithRateLimit execute now task fb this)
           = Inr (fallback_of claude_fallback_default fb)
       \<and> snd (snd (claudeCallWithRateLimit execute now task fb this)) = []
       \<and> fst (agentCallWithRateLimit run now task fb this)
           = Inr (fallback_of agent_fallback_default fb)
       \<and> snd (snd (agentCallWithRateLimit run now task fb this)) = []"
  using assms by (simp add: denied_claude denied_agent)

theorem rate_limit_check_denies_witness:
  "(59999::int) - lastClaudeCall fresh_rate_limit < claudeRateLimit fresh_rate_limit
   \<and> fst (claudeCallWithRateLimit (\<lambda>_. Inr (AgentResult ''done'')) 59999 ''click'' None fresh_rate_limit)
       = Inr \<lparr>message = ''Claude call skipped due to rate limiting'', rateLimited = True\<rparr>
   \<and> snd (snd (claudeCallWithRateLimit (\<lambda>_. Inr (AgentResult ''done'')) 59999 ''click'' None
                 fresh_rate_limit)) = []
   \<and> fst (agentCallWithRateLimit (\<lambda>_. Inr ()) 59999 ''click'' (Some ''skipped'') fresh_rate_limit)
       = Inr \<lparr>message = ''skipped'', rateLimited = True\<rparr>
   \<and> snd (snd (agentCallWithRateLimit (\<lambda>_. Inr ()) 59999 ''click'' (Some ''skipped'')
                 fresh_rate_limit)) = []"
proof -
  have h: "(59999::int) - lastClaudeCall fresh_rate_limit < claudeRateLimit fresh_rate_limit"
    by (simp add: fresh_rate_limit_def)
  show ?thesis
    using h
      rate_limit_check_denies [OF h, of "\<lambda>_. Inr (AgentResult ''done'')" "''click''" None
        "\<lambda>_. Inr ()"]
      rate_limit_check_denies [OF h, of "\<lambda>_. Inr (AgentResult ''done'')" "''click''" "Some ''skipped''"
        "\<lambda>_. Inr ()"]
    by (simp add: fallback_of_def claude_fallback_default_def)
qed

text \<open>
  C2. A call made when at least \<open>claudeRateLimit\<close> milliseconds have passed since
  \<open>lastClaudeCall\<close> is allowed: the helper first assigns \<open>lastClaudeCall = now\<close> and
  then calls the agent, in this order and whatever the agent answers. Afterwards
  \<open>lastClaudeCall\<close> is \<open>now\<close>, also when the agent call failed with an error that is
  rethrown (one for which the test of the \<open>catch\<close> block is false), or
  \<open>now + claudeRateLimit\<close> (after a rate-limit error of the provider); a call that
  succeeds returns the agent's message with \<open>rateLimited: false\<close>.
\<close>

theorem rate_limit_check_allows_and_records:
  assumes "claudeRateLimit this \<le> now - lastClaudeCall this"
  shows "take 2 (snd (snd (claudeCallWithRateLimit execute now task fb this)))
           = [Assign_lastClaudeCall now, Agent_execute task]
       \<and> lastClaudeCall (fst (snd (claudeCallWithRateLimit execute now task fb this)))
           \<in> {now, now + claudeRateLimit this}
       \<and> (\<forall>e. execute task = Inl e \<and> is_rate_limit_error e = Inr False \<longrightarrow>
             claudeCallWithRateLimit execute now task fb this =
               (Inl e, this\<lparr>lastClaudeCall := now\<rparr>,
                [Assign_lastClaudeCall now, Agent_execute task]))
       \<and> (\<forall>r. execute task = Inr r \<longrightarrow>
             claudeCallWithRateLimit execute now task fb this =
               (Inr \<lparr>message = result_message r, rateLimited = False\<rparr>,
                this\<lparr>lastClaudeCall := now\<rparr>,
                [Assign_lastClaudeCall now, Agent_execute task]))
       \<and> take 2 (snd (snd (agentCallWithRateLimit run now task fb this)))
           = [Assign_lastClaudeCall now, Agent_run task]
       \<and> lastClaudeCall (fst (snd (agentCallWithRateLimit run now task fb this)))
           \<in> {now, now + claudeRateLimit this}
       \<and> (\<forall>e. run task = Inl e \<and> is_rate_limit_error e = Inr False \<longrightarrow>
             agentCallWithRateLimit run now task fb this =
               (Inl e, this\<lparr>lastClaudeCall := now\<rparr>,
                [Assign_lastClaudeCall now, Agent_run task]))
       \<and> (run task = Inr () \<longrightarrow>
             agentCallWithRateLimit run now task fb this =
               (Inr \<lparr>message = ''Agent task completed successfully'', rateLimited = False\<rparr>,
                this\<lparr>lastClaudeCall := now\<rparr>,
                [Assign_lastClaudeCall now, Agent_run task]))"
  using assms
  by (simp add: allowed_claude allowed_agent split: sum.splits bool.splits)

theorem rate_limit_check_allows_and_records_witness:
  "claudeRateLimit fresh_rate_limit \<le> 60000 - lastClaudeCall fresh_rate_limit
   \<and> claudeCallWithRateLimit (\<lambda>_. Inr (AgentResult ''done'')) 60000 ''click'' None fresh_rate_limit
       = (Inr \<lparr>message = ''done'', rateLimited = False\<rparr>,
          \<lparr>lastClaudeCall = 60000, claudeRateLimit = 60000\<rparr>,
          [Assign_lastClaudeCall 60000, Agent_execute ''click''])
   \<and> claudeCallWithRateLimit (\<lambda>_. Inl (Error ''timeout'')) 60000 ''click'' None fresh_rate_limit
       = (Inl (Error ''timeout''),
          \<lparr>lastClaudeCall = 60000, claudeRateLimit = 60000\<rparr>,
          [Assign_lastClaudeCall 60000, Agent_execute ''click''])
   \<and> agentCallWithRateLimit (\<lambda>_. Inr ()) 60000 ''click'' None fresh_rate_limit
       = (Inr \<lparr>message = ''Agent task completed successfully'', rateLimited = False\<rparr>,
          \<lparr>lastClaudeCall = 60000, claudeRateLimit = 60000\<rparr>,
          [Assign_lastClaudeCall 60000, Agent_run ''click''])
   \<and> agentCallWithRateLimit (\<lambda>_. Inl (Error ''timeout'')) 60000 ''click'' None fresh_rate_limit
       = (Inl (Error ''timeout''),
          \<lparr>lastClaudeCall = 60000, claudeRateLimit = 60000\<rparr>,
          [Assign_lastClaudeCall 60000, Agent_run ''click''])"
proof -
  have h: "claudeRateLimit fresh_rate_limit \<le> 60000 - lastClaudeCall fresh_rate_limit"
    by (simp add: fresh_rate_limit_def)
  show ?thesis
    using h not_rate_limit_error_timeout
      rate_limit_check_allows_and_records [OF h, of "\<lambda>_. Inr (AgentResult ''done'')" "''click''" None
        "\<lambda>_. Inr ()"]
      rate_limit_check_allows_and_records [OF h, of "\<lambda>_. Inl (Error ''timeout'')" "''click''" None
        "\<lambda>_. Inl (Error ''timeout'')"]
    by (simp add: fresh_rate_limit_def)
qed



text \<open>
  C9. A denied call changes nothing: the carrier is left as it was, no assignment to
  \<open>lastClaudeCall\<close> and no call of the agent happen, and every later call behaves as
  if the denied call had not been made, so a denied call never moves the next allowed
  time.
\<close>

theorem denied_call_leaves_state:
  assumes "now - lastClaudeCall this < claudeRateLimit this"
  shows "snd (claudeCallWithRateLimit execute now task fb this) = (this, [])
       \<and> snd (agentCallWithRateLimit run now task fb this) = (this, [])
       \<and> (\<forall>later execute' task' fb'.
             claudeCallWithRateLimit execute' later task' fb'
               (fst (snd (claudeCallWithRateLimit execute now task fb this)))
             = claudeCallWithRateLimit execute' later task' fb' this)
       \<and> (\<forall>later run' task' fb'.
             agentCallWithRateLimit run' later task' fb'
               (fst (snd (agentCallWithRateLimit run now task fb this)))
             = agentCallWithRateLimit run' later task' fb' this)"
  using assms by (simp add: denied_claude denied_agent)

theorem denied_call_leaves_state_witness:
  "(30000::int) - lastClaudeCall \<lparr>lastClaudeCall = 10000, claudeRateLimit = 60000\<rparr>
     < claudeRateLimit \<lparr>lastClaudeCall = 10000, claudeRateLimit = 60000\<rparr>
   \<and> snd (claudeCallWithRateLimit (\<lambda>_. Inr (AgentResult ''done'')) 30000 ''click'' None
            \<lparr>lastClaudeCall = 10000, claudeRateLimit = 60000\<rparr>)
       = (\<lparr>lastClaudeCall = 10000, claudeRateLimit = 60000\<rparr>, [])
   \<and> snd (agentCallWithRateLimit (\<lambda>_. Inr ()) 30000 ''click'' None
            \<lparr>lastClaudeCall = 10000, claudeRateLimit = 60000\<rparr>)
       = (\<lparr>lastClaudeCall = 10000, claudeRateLimit = 60000\<rparr>, [])"
proof -
  let ?c = "\<lparr>lastClaudeCall = 10000, claudeRateLimit = 60000\<rparr>"
  have h: "(30000::int) - lastClaudeCall ?c < claudeRateLimit ?c"
    by simp
  show ?thesis
    using h denied_call_leaves_state [OF h, of "\<lambda>_. Inr (AgentResult ''done'')" "''click''" None
        "\<lambda>_. Inr ()"]
    by simp
qed

section \<open>Properties of the booking model\<close>

lemma find_startsWith_Nil: "find (\<lambda>t. t \<noteq> [] \<and> startsWith [] t) tokens = None"
  by (induction tokens) (auto simp: startsWith_def)

lemma strip_front_Nil: "strip_front tokens [] = []"
  by (subst strip_front.simps) (simp add: find_startsWith_Nil)

lemma trim_Nil: "trim [] = []"
  by (simp add: trim_def strip_front_Nil)

lemma trim_Electronics: "trim ''Electronics'' = ''Electronics''"
  by code_simp

lemma validate_keeps_this: "snd (validate this) = this"
  by (simp add: validate_def Let_def)

lemma validate_empty_iff:
  "fst (validate this) = [] \<longleftrightarrow>
     \<not> location_missing (origin this) \<and> \<not> location_missing (destination this)
     \<and> (\<exists>cs. containers this = Some cs \<and> cs \<noteq> [])
     \<and> (\<exists>c. commodity this = Some c \<and> trim c \<noteq> [])
     \<and> readyDate this \<noteq> None"
  by (auto simp: validate_def Let_def trim_Nil split: option.splits)

lemma location_present_iff:
  "\<not> location_missing loc \<longleftrightarrow> (\<exists>l. loc = Some l \<and> truthy (city l) \<and> truthy (country l))"
  by (auto simp: location_missing_def split: option.splits)

lemma validate_sample: "fst (validate (createSampleBooking now)) = []"
  by (simp add: validate_empty_iff location_present_iff createSampleBooking_def truthy_def
      trim_Electronics)

lemma validation_guard_sample: "validation_guard (createSampleBooking now) s = (Inr (), s, [])"
  by (simp add: validation_guard_def validate_sample js_return_def)

text \<open>
  C10. \<open>validate()\<close> returns the empty list exactly when origin and destination are
  given with a truthy city and country each, the containers are a non-empty list, the
  commodity is given and not empty after \<open>trim()\<close>, and the ready date is set; it
  leaves the booking as it was. The booking of \<open>createSampleBooking()\<close> passes it at
  every time of creation, so the guard at the start of \<open>fillBookingForm\<close> does not
  throw for it.
\<close>

theorem validate_accepts_exactly_complete_bookings:
  "(fst (validate this) = [] \<longleftrightarrow>
      (\<exists>l. origin this = Some l \<and> truthy (city l) \<and> truthy (country l))
      \<and> (\<exists>l. destination this = Some l \<and> truthy (city l) \<and> truthy (country l))
      \<and> (\<exists>cs. containers this = Some cs \<and> cs \<noteq> [])
      \<and> (\<exists>c. commodity this = Some c \<and> trim c \<noteq> [])
      \<and> readyDate this \<noteq> None)
   \<and> snd (validate this) = this
   \<and> fst (validate (createSampleBooking now)) = []
   \<and> validation_guard (createSampleBooking now) s = (Inr (), s, [])"
  by (simp add: validate_empty_iff location_present_iff validate_keeps_this validate_sample
      validation_guard_sample)

section \<open>Properties of the login loop\<close>

lemma loginAttempt_throws_last:
  assumes "hybridLogin_body w attempt = Inl e" and "\<not> attempt < maxLoginAttempts"
  shows "loginAttempt (\<lambda>attempt. on_carrier ''hybridLogin'' (hybridLogin w attempt))
           maxLoginAttempts attempt loginSuccess (Some this)
         = (Inl e, Some this, [HybridLogin_body])"
  using assms
  by (simp add: loginAttempt_def js_try_catch_def on_carrier_def hybridLogin_def external_def
      js_throw_def)

lemma loginAttempt_throws_retry:
  assumes "hybridLogin_body w attempt = Inl e" and "attempt < maxLoginAttempts"
  shows "loginAttempt (\<lambda>attempt. on_carrier ''hybridLogin'' (hybridLogin w attempt))
           maxLoginAttempts attempt loginSuccess (Some this)
         = (Inr loginSuccess, Some this, [HybridLogin_body, SetTimeout 3000])"
  using assms
  by (simp add: loginAttempt_def js_try_catch_def on_carrier_def hybridLogin_def external_def
      js_seq_def sleep_def js_return_def)

lemma loginAttempt_returns:
  assumes "hybridLogin_body w attempt = Inr b"
  shows "loginAttempt (\<lambda>attempt. on_carrier ''hybridLogin'' (hybridLogin w attempt))
           maxLoginAttempts attempt loginSuccess (Some this)
         = (Inr b, Some this, [HybridLogin_body])"
  using assms
  by (simp add: loginAttempt_def js_try_catch_def on_carrier_def hybridLogin_def external_def)

lemma loginLoop_all_throw:
  assumes "\<forall>k. attempt \<le> k \<and> k \<le> N \<longrightarrow> hybridLogin_body w k = Inl (err k)"
    and "attempt \<le> N"
  shows "loginLoop (\<lambda>attempt. on_carrier ''hybridLogin'' (hybridLogin w attempt)) N attempt False
           (Some this)
         = (Inl (err N), Some this,
            concat (replicate (N - attempt) [HybridLogin_body, SetTimeout 3000]) @ [HybridLogin_body])"
  using assms
proof (induction "N - attempt" arbitrary: attempt)
  case 0
  then have "attempt = N" by simp
  with 0 have "hybridLogin_body w N = Inl (err N)" by simp
  with \<open>attempt = N\<close> show ?case
    by (subst loginLoop.simps) (simp add: loginAttempt_throws_last)
next
  case (Suc n)
  then have lt: "attempt < N" and n: "n = N - (attempt + 1)" by simp_all
  from Suc.prems lt have here: "hybridLogin_body w attempt = Inl (err attempt)" by simp
  from Suc.prems have rest: "\<forall>k. attempt + 1 \<le> k \<and> k \<le> N \<longrightarrow> hybridLogin_body w k = Inl (err k)"
    by simp
  from lt have le: "attempt + 1 \<le> N" by simp
  have ih: "loginLoop (\<lambda>attempt. on_carrier ''hybridLogin'' (hybridLogin w attempt)) N (attempt + 1)
              False (Some this)
            = (Inl (err N), Some this,
               concat (replicate (N - (attempt + 1)) [HybridLogin_body, SetTimeout 3000])
               @ [HybridLogin_body])"
    using Suc.hyps(1) [OF n rest le] .
  have rep: "N - attempt = Suc (N - (attempt + 1))" using lt by simp
  show ?case
    using lt ih
    by (subst loginLoop.simps) (simp add: loginAttempt_throws_retry [OF here lt] rep)
qed

lemma count_attempts:
  "count_list (concat (replicate n [HybridLogin_body, SetTimeout 3000])) HybridLogin_body = n"
  by (induction n) simp_all

lemma count_sleeps:
  "count_list (concat (replicate n [HybridLogin_body, SetTimeout 3000])) (SetTimeout 3000) = n"
  by (induction n) simp_all

text \<open>
  C4. When \<open>hybridLogin\<close> throws on every attempt, the login loop with \<open>N\<close> attempts
  (\<open>N\<close> is 2 in both pipelines) calls it exactly \<open>N\<close> times, waits the fixed 3000 ms
  between two consecutive attempts and nowhere else, and then throws the error of the
  last attempt.
\<close>

theorem login_loop_exhausts_attempts:
  assumes "0 < N"
    and "\<forall>k. 1 \<le> k \<and> k \<le> N \<longrightarrow> hybridLogin_body w k = Inl (err k)"
  shows "loginLoop (\<lambda>attempt. on_carrier ''hybridLogin'' (hybridLogin w attempt)) N 1 False
           (Some this)
         = (Inl (err N), Some this,
            concat (replicate (N - 1) [HybridLogin_body, SetTimeout 3000]) @ [HybridLogin_body])
       \<and> count_list (snd (snd (loginLoop (\<lambda>attempt. on_carrier ''hybridLogin'' (hybridLogin w attempt))
                                 N 1 False (Some this)))) HybridLogin_body = N
       \<and> count_list (snd (snd (loginLoop (\<lambda>attempt. on_carrier ''hybridLogin'' (hybridLogin w attempt))
                                 N 1 False (Some this)))) (SetTimeout 3000) = N - 1
       \<and> (N = 2 \<longrightarrow>
            snd (snd (loginLoop (\<lambda>attempt. on_carrier ''hybridLogin'' (hybridLogin w attempt))
                        N 1 False (Some this)))
            = [HybridLogin_body, SetTimeout 3000, HybridLogin_body])"
proof -
  let ?run = "loginLoop (\<lambda>attempt. on_carrier ''hybridLogin'' (hybridLogin w attempt)) N 1 False
                (Some this)"
  let ?trace = "concat (replicate (N - 1) [HybridLogin_body, SetTimeout 3000]) @ [HybridLogin_body]"
  from assms have le: "1 \<le> N" by simp
  have run: "?run = (Inl (err N), Some this, ?trace)"
    by (rule loginLoop_all_throw [OF assms(2) le])
  have attempts: "count_list ?trace HybridLogin_body = N"
    using assms(1) by (simp add: count_attempts)
  have sleeps: "count_list ?trace (SetTimeout 3000) = N - 1"
    by (simp add: count_sleeps)
  have two: "N = 2 \<longrightarrow> ?trace = [HybridLogin_body, SetTimeout 3000, HybridLogin_body]"
    by (simp add: numeral_2_eq_2)
  show ?thesis
    unfolding run using attempts sleeps two by simp
qed

theorem login_loop_exhausts_attempts_witness:
  "(0::nat) < 2
   \<and> hybridLogin_body (sample_world\<lparr>hybridLogin_body := (\<lambda>attempt. Inl (Error ''Navigation timeout''))\<rparr>) 1
       = Inl (Error ''Navigation timeout'')
   \<and> hybridLogin_body (sample_world\<lparr>hybridLogin_body := (\<lambda>attempt. Inl (Error ''Navigation timeout''))\<rparr>) 2
       = Inl (Error ''Navigation timeout'')
   \<and> loginLoop (\<lambda>attempt. on_carrier ''hybridLogin''
                   (hybridLogin (sample_world\<lparr>hybridLogin_body := (\<lambda>attempt. Inl (Error ''Navigation timeout''))\<rparr>)
                      attempt)) 2 1 False (Some sample_carrier)
       = (Inl (Error ''Navigation timeout''), Some sample_carrier,
          [HybridLogin_body, SetTimeout 3000, HybridLogin_body])"
proof -
  let ?w = "sample_world\<lparr>hybridLogin_body := (\<lambda>attempt. Inl (Error ''Navigation timeout''))\<rparr>"
  have pos: "(0::nat) < 2" by simp
  have fails: "\<forall>k. 1 \<le> k \<and> k \<le> 2 \<longrightarrow> hybridLogin_body ?w k = Inl (Error ''Navigation timeout'')"
    by simp
  show ?thesis
    using login_loop_exhausts_attempts [OF pos fails, of sample_carrier]
    by simp
qed

section \<open>Effects and state of composed programs\<close>

lemma keepsD:
  assumes "keeps I P Q m" and "I s" and "m s = (r, s1, t)"
  shows "I s1" and "\<forall>ev \<in> set t. P ev" and "\<And>x. r = Inr x \<Longrightarrow> Q x"
  using assms by (auto simp: keeps_def)

lemma keeps_return: "Q x \<Longrightarrow> keeps I P Q (js_return x)"
  by (simp add: keeps_def js_return_def)

lemma keeps_throw: "keeps I P Q (js_throw e)"
  by (simp add: keeps_def js_throw_def)

lemma keeps_external: "P ev \<Longrightarrow> keeps I P (\<lambda>x. True) (external ev outcome)"
  by (simp add: keeps_def external_def)

lemma keeps_sleep: "P (SetTimeout ms) \<Longrightarrow> keeps I P (\<lambda>x. True) (sleep ms)"
  by (simp add: sleep_def keeps_external)

lemma keeps_seq_post:
  assumes "keeps I P Q m" and "\<And>x. Q x \<Longrightarrow> keeps I P R (f x)"
  shows "keeps I P R (js_seq m f)"
  unfolding keeps_def
proof (intro allI impI)
  fix s assume "I s"
  obtain r s1 t1 where m: "m s = (r, s1, t1)" by (cases "m s") auto
  note 1 = keepsD [OF assms(1) \<open>I s\<close> m]
  show "I (fst (snd (js_seq m f s))) \<and> (\<forall>ev \<in> set (snd (snd (js_seq m f s))). P ev)
      \<and> (\<forall>y. fst (js_seq m f s) = Inr y \<longrightarrow> R y)"
  proof (cases r)
    case (Inl e)
    with m 1 show ?thesis by (simp add: js_seq_def)
  next
    case (Inr x)
    obtain r2 s2 t2 where f: "f x s1 = (r2, s2, t2)" by (cases "f x s1") auto
    from 1(3) [OF Inr] have "keeps I P R (f x)" by (rule assms(2))
    note 2 = keepsD [OF this 1(1) f]
    from m Inr f 1 2 show ?thesis by (auto simp: js_seq_def)
  qed
qed

lemma keeps_seq:
  assumes "keeps I P (\<lambda>x. True) m" and "\<And>x. keeps I P R (f x)"
  shows "keeps I P R (js_seq m f)"
  by (rule keeps_seq_post [OF assms(1)]) (rule assms(2))

lemma keeps_try_catch:
  assumes "keeps I P Q m" and "\<And>e. keeps I P Q (h e)"
  shows "keeps I P Q (js_try_catch m h)"
  unfolding keeps_def
proof (intro allI impI)
  fix s assume "I s"
  obtain r s1 t1 where m: "m s = (r, s1, t1)" by (cases "m s") auto
  note 1 = keepsD [OF assms(1) \<open>I s\<close> m]
  show "I (fst (snd (js_try_catch m h s))) \<and> (\<forall>ev \<in> set (snd (snd (js_try_catch m h s))). P ev)
      \<and> (\<forall>y. fst (js_try_catch m h s) = Inr y \<longrightarrow> Q y)"
  proof (cases r)
    case (Inr x)
    with m 1 show ?thesis by (simp add: js_try_catch_def)
  next
    case (Inl e)
    obtain r2 s2 t2 where h: "h e s1 = (r2, s2, t2)" by (cases "h e s1") auto
    note 2 = keepsD [OF assms(2) [of e] 1(1) h]
    from m Inl h 1 2 show ?thesis by (auto simp: js_try_catch_def)
  qed
qed

lemma keeps_get: "(\<And>s. I s \<Longrightarrow> keeps I P Q (f s)) \<Longrightarrow> keeps I P Q (js_get f)"
  by (simp add: keeps_def js_get_def)

lemma keeps_modify: "(\<And>s. I s \<Longrightarrow> I (f s)) \<Longrightarrow> keeps I P (\<lambda>x. True) (js_modify f)"
  by (simp add: keeps_def js_modify_def)

lemma keeps_if: "keeps I P Q m \<Longrightarrow> keeps I P Q n \<Longrightarrow> keeps I P Q (if b then m else n)"
  by simp

lemma keeps_weaken: "keeps I P Q m \<Longrightarrow> keeps I P (\<lambda>x. True) m"
  by (simp add: keeps_def)

lemma keeps_on_carrier:
  assumes "keeps (\<lambda>this. True) P Q m"
  shows "keeps (\<lambda>carrier. carrier \<noteq> None) P Q (on_carrier method m)"
  unfolding keeps_def
proof (intro allI impI)
  fix carrier :: "MaerskCarrier option"
  assume "carrier \<noteq> None"
  then obtain this where c: "carrier = Some this" by auto
  obtain r this1 t where m: "m this = (r, this1, t)" by (cases "m this") auto
  note 1 = keepsD [OF assms _ m]
  from c m 1 show "fst (snd (on_carrier method m carrier)) \<noteq> None
      \<and> (\<forall>ev \<in> set (snd (snd (on_carrier method m carrier))). P ev)
      \<and> (\<forall>x. fst (on_carrier method m carrier) = Inr x \<longrightarrow> Q x)"
    by (simp add: on_carrier_def)
qed

lemma keeps_loginAttempt:
  assumes "\<And>k. keeps I P (\<lambda>x. True) (login k)" and "P (SetTimeout 3000)"
  shows "keeps I P (\<lambda>x. True) (loginAttempt login maxLoginAttempts attempt loginSuccess)"
  unfolding loginAttempt_def
  by (intro keeps_try_catch keeps_if keeps_seq keeps_sleep keeps_return keeps_throw assms TrueI)

lemma keeps_loginLoop_state:
  assumes "\<And>k. keeps I P (\<lambda>x. True) (login k)" and "P (SetTimeout 3000)"
  shows "I s \<Longrightarrow>
         I (fst (snd (loginLoop login maxLoginAttempts attempt loginSuccess s)))
       \<and> (\<forall>ev \<in> set (snd (snd (loginLoop login maxLoginAttempts attempt loginSuccess s))). P ev)"
proof (induction "maxLoginAttempts + 1 - attempt" arbitrary: attempt loginSuccess s)
  case 0
  then have "\<not> attempt \<le> maxLoginAttempts" by simp
  with 0 show ?case
    by (subst loginLoop.simps, subst (2) loginLoop.simps) simp
next
  case (Suc n)
  show ?case
  proof (cases "attempt \<le> maxLoginAttempts \<and> \<not> loginSuccess")
    case False
    with Suc.prems show ?thesis
      by (subst loginLoop.simps, subst (2) loginLoop.simps) auto
  next
    case True
    obtain r s1 t1 where a: "loginAttempt login maxLoginAttempts attempt loginSuccess s = (r, s1, t1)"
      by (cases "loginAttempt login maxLoginAttempts attempt loginSuccess s") auto
    have "keeps I P (\<lambda>x. True) (loginAttempt login maxLoginAttempts attempt loginSuccess)"
      by (rule keeps_loginAttempt) (rule assms)+
    note 1 = keepsD(1,2) [OF this Suc.prems a]
    show ?thesis
    proof (cases r)
      case (Inl e)
      with a True 1 show ?thesis
        by (subst loginLoop.simps, subst (2) loginLoop.simps) simp
    next
      case (Inr b)
      obtain r2 s2 t2 where l: "loginLoop login maxLoginAttempts (attempt + 1) b s1 = (r2, s2, t2)"
        by (cases "loginLoop login maxLoginAttempts (attempt + 1) b s1") auto
      from Suc.hyps(2) have "n = maxLoginAttempts + 1 - (attempt + 1)" by simp
      from Suc.hyps(1) [OF this 1(1), of b] l
      have "I s2" "\<forall>ev \<in> set t2. P ev"
        by auto
      with a True Inr l 1 show ?thesis
        by (subst loginLoop.simps, subst (2) loginLoop.simps) auto
    qed
  qed
qed

lemma keeps_loginLoop:
  assumes "\<And>k. keeps I P (\<lambda>x. True) (login k)" and "P (SetTimeout 3000)"
  shows "keeps I P (\<lambda>x. True) (loginLoop login maxLoginAttempts attempt loginSuccess)"
  unfolding keeps_def
proof (intro allI impI)
  fix s assume "I s"
  have "I (fst (snd (loginLoop login maxLoginAttempts attempt loginSuccess s)))
      \<and> (\<forall>ev \<in> set (snd (snd (loginLoop login maxLoginAttempts attempt loginSuccess s))). P ev)"
    by (rule keeps_loginLoop_state) (rule assms \<open>I s\<close>)+
  then show "I (fst (snd (loginLoop login maxLoginAttempts attempt loginSuccess s)))
      \<and> (\<forall>ev \<in> set (snd (snd (loginLoop login maxLoginAttempts attempt loginSuccess s))). P ev)
      \<and> (\<forall>x. fst (loginLoop login maxLoginAttempts attempt loginSuccess s) = Inr x \<longrightarrow> True)"
    by simp
qed

section \<open>Effects of the carrier methods and of the pipeline stages\<close>

lemmas keeps_intros =
  keeps_seq keeps_try_catch keeps_get keeps_if keeps_external keeps_sleep keeps_throw
  keeps_return keeps_modify

lemma keeps_with_page: "keeps I P Q m \<Longrightarrow> keeps I P Q (with_page prop m)"
  unfolding with_page_def by (intro keeps_get keeps_if keeps_throw)

lemma keeps_with_agent: "keeps I P Q m \<Longrightarrow> keeps I P Q (with_agent prop m)"
  unfolding with_agent_def by (intro keeps_get keeps_if keeps_throw)

lemma keeps_initBrowser:
  assumes "\<And>ev. quiet ev \<Longrightarrow> P ev"
  shows "keeps (\<lambda>this. True) P (\<lambda>x. True) (initBrowser w headless)"
  unfolding initBrowser_def
  by (intro keeps_intros assms) simp_all

lemma keeps_takeScreenshot:
  assumes "\<And>ev. quiet ev \<Longrightarrow> P ev"
  shows "keeps (\<lambda>this. True) P (\<lambda>x. True) (takeScreenshot w filename)"
  unfolding takeScreenshot_def
  by (intro keeps_intros assms) simp_all

lemma keeps_hybridLogin:
  assumes "\<And>ev. quiet ev \<Longrightarrow> P ev"
  shows "keeps (\<lambda>this. True) P (\<lambda>x. True) (hybridLogin w attempt)"
  unfolding hybridLogin_def
  by (intro keeps_intros assms) simp_all

lemma keeps_verifyBookingPage:
  assumes "\<And>ev. quiet ev \<Longrightarrow> P ev"
  shows "keeps (\<lambda>this. True) P (\<lambda>x. True) (verifyBookingPage w)"
  unfolding verifyBookingPage_def
  by (intro keeps_intros keeps_with_page assms) simp_all

lemma keeps_validation_guard: "keeps I P (\<lambda>x. True) (validation_guard bookingDetails)"
  unfolding validation_guard_def Let_def
  by (intro keeps_intros) simp_all

lemma keeps_fillBookingForm:
  assumes "\<And>ev. quiet ev \<Longrightarrow> P ev"
  shows "keeps (\<lambda>this. True) P (\<lambda>x. True) (fillBookingForm w bookingDetails)"
  unfolding fillBookingForm_def
  by (intro keeps_intros keeps_validation_guard keeps_takeScreenshot assms) simp_all

lemma keeps_submitBookingForm:
  assumes "\<And>ev. quiet ev \<Longrightarrow> P ev"
  shows "keeps (\<lambda>this. True) P (\<lambda>x. True) (submitBookingForm w)"
  unfolding submitBookingForm_def
  by (intro keeps_intros assms) simp_all

lemma keeps_extractRates:
  assumes "\<And>ev. quiet ev \<Longrightarrow> P ev"
  shows "keeps (\<lambda>this. True) P (extractRates_result w) (extractRates w)"
  unfolding extractRates_def
  by (intro keeps_try_catch keeps_seq keeps_with_page keeps_with_agent keeps_external
      keeps_return keeps_throw keeps_takeScreenshot assms)
    (simp_all add: extractRates_result_def)

lemma keeps_close:
  assumes "\<And>ev. quiet ev \<Longrightarrow> P ev" and "P Carrier_close"
  shows "keeps (\<lambda>this. True) P (\<lambda>x. True) (close w)"
  unfolding close_def
  by (intro keeps_intros assms) simp_all

lemma keeps_carrier_page_url:
  "keeps (\<lambda>carrier. carrier \<noteq> None) P (\<lambda>x. True) (carrier_page_url w)"
  unfolding carrier_page_url_def
  by (intro keeps_on_carrier keeps_with_page keeps_return) simp

lemma keeps_goto_book:
  assumes "\<And>ev. quiet ev \<Longrightarrow> P ev"
  shows "keeps (\<lambda>carrier. carrier \<noteq> None) P (\<lambda>x. True) (goto_book w)"
  unfolding goto_book_def
  by (intro keeps_on_carrier keeps_with_page keeps_intros assms) simp_all

lemma keeps_save_rates:
  assumes quietP: "\<And>ev. quiet ev \<Longrightarrow> P ev"
    and writeP: "\<And>r. extractRates_result w r \<Longrightarrow> P (WriteFile results_file (json_of_jsonResult r))"
  shows "keeps (\<lambda>carrier. carrier \<noteq> None) P is_successResult (save_rates w)"
  unfolding save_rates_def
proof (rule keeps_seq_post [where Q = "extractRates_result w"])
  show "keeps (\<lambda>carrier. carrier \<noteq> None) P (extractRates_result w)
          (on_carrier ''extractRates'' (extractRates w))"
    by (intro keeps_on_carrier keeps_extractRates quietP)
next
  fix r :: jsonResult
  assume "extractRates_result w r"
  then have "P (WriteFile results_file (json_of_jsonResult r))" by (rule writeP)
  then show "keeps (\<lambda>carrier. carrier \<noteq> None) P is_successResult
          (js_seq (external (WriteFile results_file (json_of_jsonResult r))
                      (writeFile w results_file (json_of_jsonResult r))) (\<lambda>_.
            js_return (successResult r)))"
    by (intro keeps_seq keeps_external keeps_return) (auto simp: is_successResult_def)
qed

lemma keeps_submit_form:
  assumes quietP: "\<And>ev. quiet ev \<Longrightarrow> P ev"
    and writeP: "\<And>r. extractRates_result w r \<Longrightarrow> P (WriteFile results_file (json_of_jsonResult r))"
  shows "keeps (\<lambda>carrier. carrier \<noteq> None) P is_successResult (submit_form w)"
  unfolding submit_form_def
  by (intro keeps_seq keeps_if keeps_throw keeps_on_carrier keeps_submitBookingForm
      keeps_save_rates quietP writeP)

lemma keeps_fill_form:
  assumes quietP: "\<And>ev. quiet ev \<Longrightarrow> P ev"
    and writeP: "\<And>r. extractRates_result w r \<Longrightarrow> P (WriteFile results_file (json_of_jsonResult r))"
  shows "keeps (\<lambda>carrier. carrier \<noteq> None) P is_successResult (fill_form w booking)"
  unfolding fill_form_def
  by (intro keeps_seq keeps_if keeps_throw keeps_on_carrier keeps_fillBookingForm
      keeps_submit_form quietP writeP)

lemma keeps_extract_stages:
  assumes quietP: "\<And>ev. quiet ev \<Longrightarrow> P ev"
    and writeP: "\<And>r. extractRates_result w r \<Longrightarrow> P (WriteFile results_file (json_of_jsonResult r))"
  shows "keeps (\<lambda>carrier. carrier \<noteq> None) P is_successResult (extract_stages w booking)"
  unfolding extract_stages_def
  by (intro keeps_fill_form keeps_seq keeps_if keeps_throw keeps_return keeps_sleep
      keeps_loginLoop keeps_on_carrier keeps_initBrowser keeps_hybridLogin
      keeps_verifyBookingPage keeps_carrier_page_url keeps_goto_book quietP writeP TrueI)
    simp_all

lemma keeps_extract_catch:
  assumes quietP: "\<And>ev. quiet ev \<Longrightarrow> P ev"
    and writeP: "P (WriteFile results_file (errorResult w error))"
  shows "keeps (\<lambda>carrier. carrier \<noteq> None) P (\<lambda>x. True) (extract_catch w error)"
  unfolding extract_catch_def
  by (intro keeps_intros keeps_on_carrier keeps_takeScreenshot quietP writeP TrueI)

section \<open>The pipeline as a whole\<close>

lemma constructor_iff:
  "(\<exists>this. MaerskCarrier_constructor (env w) = Inr this) \<longleftrightarrow> claude_config_ok w"
  by (auto simp: MaerskCarrier_constructor_def claude_config_ok_def Let_def)

lemma extract_try_unconfigured:
  assumes "\<not> claude_config_ok w"
  shows "\<exists>e. extract_try w None = (Inl e, None, [])"
  using assms
  by (auto simp: extract_try_def claude_config_ok_def js_seq_def js_throw_def js_return_def)

lemma extract_try_configured:
  assumes "claude_config_ok w"
  shows "\<exists>this. extract_try w None
           = extract_stages w (createSampleBooking (Date_now w)) (Some this)"
proof -
  from assms obtain this where c: "MaerskCarrier_constructor (env w) = Inr this"
    using constructor_iff by blast
  obtain r s t where st: "extract_stages w (createSampleBooking (Date_now w)) (Some this) = (r, s, t)"
    by (cases "extract_stages w (createSampleBooking (Date_now w)) (Some this)") auto
  from assms c st have "extract_try w None = (r, s, t)"
    by (simp add: extract_try_def claude_config_ok_def js_seq_def js_return_def
        new_MaerskCarrier_def Let_def)
  with st show ?thesis by (intro exI [of _ this]) simp
qed

lemma extract_catch_None:
  "extract_catch w error None =
     (case writeFile w results_file (errorResult w error) of
        Inl e \<Rightarrow> (Inl e, None, [WriteFile results_file (errorResult w error)])
      | Inr u \<Rightarrow> (Inl error, None, [WriteFile results_file (errorResult w error)]))"
  by (simp add: extract_catch_def js_seq_def js_get_def js_return_def external_def js_throw_def
      split: sum.splits)

lemma extract_finally_None: "extract_finally w None = (Inr (), None, [])"
  by (simp add: extract_finally_def js_get_def js_return_def)

lemma extract_finally_Some:
  "extract_finally w (Some this) =
     (Inr (), Some this, Carrier_close # (if stagehand this then [Stagehand_close] else []))"
  by (simp add: extract_finally_def js_get_def js_return_def js_try_catch_def on_carrier_def
      close_def js_seq_def external_def split: sum.splits)

text \<open>The run of a pipeline that has no carrier: one error document, nothing else.\<close>

lemma run_unconfigured:
  assumes "\<not> claude_config_ok w"
  shows "\<exists>e e'. extractMaerskRates w = (Inl e', [WriteFile results_file (errorResult w e)])"
proof -
  from extract_try_unconfigured [OF assms] obtain e where "extract_try w None = (Inl e, None, [])"
    by blast
  then show ?thesis
    by (cases "writeFile w results_file (errorResult w e)")
      (auto simp: extractMaerskRates_def extractMaerskRates_prog_def js_try_finally_def
        js_try_catch_def extract_catch_None extract_finally_None)
qed

text \<open>
  The run of a pipeline that has a carrier: the effects of the \<open>try\<close> and \<open>catch\<close>
  blocks, for which \<open>P\<close> holds, then the call of \<open>close\<close>.
\<close>

lemma run_configured:
  assumes ok: "claude_config_ok w"
    and quietP: "\<And>ev. quiet ev \<Longrightarrow> P ev"
    and writeP: "\<And>r. extractRates_result w r \<Longrightarrow> P (WriteFile results_file (json_of_jsonResult r))"
    and errorP: "\<And>e. P (WriteFile results_file (errorResult w e))"
  obtains r and this :: MaerskCarrier and t where "\<forall>ev \<in> set t. P ev"
    and "extractMaerskRates w
           = (r, t @ Carrier_close # (if stagehand this then [Stagehand_close] else []))"
proof -
  let ?I = "\<lambda>carrier :: MaerskCarrier option. carrier \<noteq> None"
  from extract_try_configured [OF ok] obtain this0 where
    start: "extract_try w None = extract_stages w (createSampleBooking (Date_now w)) (Some this0)"
    by blast
  obtain r1 s1 t1 where st: "extract_stages w (createSampleBooking (Date_now w)) (Some this0) = (r1, s1, t1)"
    by (cases "extract_stages w (createSampleBooking (Date_now w)) (Some this0)") auto
  have "keeps ?I P is_successResult (extract_stages w (createSampleBooking (Date_now w)))"
  proof (rule keeps_extract_stages)
    show "\<And>ev. quiet ev \<Longrightarrow> P ev" by (rule quietP)
    show "\<And>r. extractRates_result w r \<Longrightarrow> P (WriteFile results_file (json_of_jsonResult r))" by (rule writeP)
  qed
  from keepsD(1,2) [OF this _ st] have 1: "s1 \<noteq> None" "\<forall>ev \<in> set t1. P ev"
    by simp_all
  from 1 obtain this1 where s1: "s1 = Some this1" by auto
  show thesis
  proof (cases r1)
    case (Inr x)
    with start st s1
    have "js_try_catch (extract_try w) (extract_catch w) None = (Inr x, Some this1, t1)"
      by (simp add: js_try_catch_def)
    then have "extractMaerskRates w
        = (Inr x, t1 @ Carrier_close # (if stagehand this1 then [Stagehand_close] else []))"
      by (simp add: extractMaerskRates_def extractMaerskRates_prog_def js_try_finally_def
          extract_finally_Some)
    with 1(2) show thesis by (rule that)
  next
    case (Inl e)
    obtain r2 s2 t2 where c: "extract_catch w e s1 = (r2, s2, t2)"
      by (cases "extract_catch w e s1") auto
    have "keeps ?I P (\<lambda>x. True) (extract_catch w e)"
    proof (rule keeps_extract_catch)
      show "\<And>ev. quiet ev \<Longrightarrow> P ev" by (rule quietP)
      show "P (WriteFile results_file (errorResult w e))" by (rule errorP)
    qed
    from keepsD(1,2) [OF this 1(1) c] have 2: "s2 \<noteq> None" "\<forall>ev \<in> set t2. P ev"
      by simp_all
    from 2 obtain this2 where "s2 = Some this2" by auto
    with start st Inl c
    have "js_try_catch (extract_try w) (extract_catch w) None = (r2, Some this2, t1 @ t2)"
      by (simp add: js_try_catch_def)
    then have run: "extractMaerskRates w
        = (r2, (t1 @ t2) @ Carrier_close # (if stagehand this2 then [Stagehand_close] else []))"
      by (simp add: extractMaerskRates_def extractMaerskRates_prog_def js_try_finally_def
          extract_finally_Some)
    from 1 2 have "\<forall>ev \<in> set (t1 @ t2). P ev" by auto
    then show thesis using run by (rule that)
  qed
qed

section \<open>Teardown and result documents\<close>

lemma quiet_not_close: "quiet ev \<Longrightarrow> ev \<noteq> Carrier_close"
  by (cases ev) simp_all

lemma methods_ignore_close:
  "initBrowser (w\<lparr>stagehand_close := outcome\<rparr>) = initBrowser w"
  "hybridLogin (w\<lparr>stagehand_close := outcome\<rparr>) = hybridLogin w"
  "carrier_page_url (w\<lparr>stagehand_close := outcome\<rparr>) = carrier_page_url w"
  "goto_book (w\<lparr>stagehand_close := outcome\<rparr>) = goto_book w"
  "verifyBookingPage (w\<lparr>stagehand_close := outcome\<rparr>) = verifyBookingPage w"
  "takeScreenshot (w\<lparr>stagehand_close := outcome\<rparr>) = takeScreenshot w"
  "submitBookingForm (w\<lparr>stagehand_close := outcome\<rparr>) = submitBookingForm w"
  "new_MaerskCarrier (w\<lparr>stagehand_close := outcome\<rparr>) = new_MaerskCarrier w"
  "errorResult (w\<lparr>stagehand_close := outcome\<rparr>) = errorResult w"
  by (rule ext, simp add: initBrowser_def hybridLogin_def carrier_page_url_def goto_book_def
      verifyBookingPage_def takeScreenshot_def submitBookingForm_def new_MaerskCarrier_def
      errorResult_def split del: if_split cong: if_cong)+

lemma fillBookingForm_ignores_close:
  "fillBookingForm (w\<lparr>stagehand_close := outcome\<rparr>) = fillBookingForm w"
  by (rule ext) (simp add: fillBookingForm_def methods_ignore_close)

lemma extractRates_ignores_close:
  "extractRates (w\<lparr>stagehand_close := outcome\<rparr>) = extractRates w"
  by (simp add: extractRates_def methods_ignore_close)

lemma blocks_ignore_close:
  "save_rates (w\<lparr>stagehand_close := outcome\<rparr>) = save_rates w"
  "submit_form (w\<lparr>stagehand_close := outcome\<rparr>) = submit_form w"
  "fill_form (w\<lparr>stagehand_close := outcome\<rparr>) = fill_form w"
proof -
  show 1: "save_rates (w\<lparr>stagehand_close := outcome\<rparr>) = save_rates w"
    by (simp add: save_rates_def extractRates_ignores_close)
  show 2: "submit_form (w\<lparr>stagehand_close := outcome\<rparr>) = submit_form w"
    by (simp add: submit_form_def methods_ignore_close 1 split del: if_split cong: if_cong)
  show "fill_form (w\<lparr>stagehand_close := outcome\<rparr>) = fill_form w"
    by (rule ext)
      (simp add: fill_form_def fillBookingForm_ignores_close 2 split del: if_split cong: if_cong)
qed

lemma extract_stages_ignores_close:
  "extract_stages (w\<lparr>stagehand_close := outcome\<rparr>) = extract_stages w"
  by (rule ext)
    (simp add: extract_stages_def methods_ignore_close blocks_ignore_close
      split del: if_split cong: if_cong)

lemma extract_try_ignores_close:
  "extract_try (w\<lparr>stagehand_close := outcome\<rparr>) = extract_try w"
  by (simp add: extract_try_def extract_stages_ignores_close methods_ignore_close
      split del: if_split cong: if_cong)

lemma extract_catch_ignores_close:
  "extract_catch (w\<lparr>stagehand_close := outcome\<rparr>) = extract_catch w"
  by (rule ext)
    (simp add: extract_catch_def methods_ignore_close split del: if_split cong: if_cong)

lemma extract_finally_ignores_close:
  "extract_finally (w\<lparr>stagehand_close := outcome\<rparr>) = extract_finally w"
proof
  fix carrier
  show "extract_finally (w\<lparr>stagehand_close := outcome\<rparr>) carrier = extract_finally w carrier"
    by (cases carrier) (simp_all add: extract_finally_None extract_finally_Some)
qed

lemma run_ignores_close:
  "extractMaerskRates (w\<lparr>stagehand_close := outcome\<rparr>) = extractMaerskRates w"
  by (simp add: extractMaerskRates_def extractMaerskRates_prog_def extract_try_ignores_close
      extract_catch_ignores_close extract_finally_ignores_close)

lemma close_once_configured:
  assumes "claude_config_ok w"
  shows "\<exists>before after. snd (extractMaerskRates w) = before @ Carrier_close # after
           \<and> Carrier_close \<notin> set before \<and> (after = [] \<or> after = [Stagehand_close])"
proof -
  obtain r and this :: MaerskCarrier and t where t: "\<forall>ev \<in> set t. ev \<noteq> Carrier_close"
    and run: "extractMaerskRates w
           = (r, t @ Carrier_close # (if stagehand this then [Stagehand_close] else []))"
    by (rule run_configured [OF assms, where P = "\<lambda>ev. ev \<noteq> Carrier_close"])
      (simp_all add: quiet_not_close)
  from t have "Carrier_close \<notin> set t" by auto
  with run show ?thesis
    by (rule_tac x = t in exI,
        rule_tac x = "if stagehand this then [Stagehand_close] else []" in exI) simp
qed

text \<open>
  C6. The constructor returns a carrier exactly when the three required variables are
  set. In every run with a carrier \<open>carrier.close()\<close> is called exactly once, after
  all other effects of the run (only the \<open>stagehand.close()\<close> it makes can follow);
  in a run without a carrier it is not called. Whatever \<open>stagehand.close()\<close> answers,
  also when it throws, the pipeline returns or throws the same and has the same
  effects.
\<close>

theorem teardown_runs_exactly_once:
  "((\<exists>this. MaerskCarrier_constructor (env w) = Inr this) \<longleftrightarrow> claude_config_ok w)
   \<and> count_list (snd (extractMaerskRates w)) Carrier_close = (if claude_config_ok w then 1 else 0)
   \<and> (claude_config_ok w \<longrightarrow>
        (\<exists>before after. snd (extractMaerskRates w) = before @ Carrier_close # after
           \<and> Carrier_close \<notin> set before \<and> (after = [] \<or> after = [Stagehand_close])))
   \<and> extractMaerskRates (w\<lparr>stagehand_close := outcome\<rparr>) = extractMaerskRates w"
proof -
  have count: "count_list (snd (extractMaerskRates w)) Carrier_close
                 = (if claude_config_ok w then 1 else 0)"
  proof (cases "claude_config_ok w")
    case True
    from close_once_configured [OF True] obtain before after where
      "snd (extractMaerskRates w) = before @ Carrier_close # after"
      "Carrier_close \<notin> set before" "after = [] \<or> after = [Stagehand_close]"
      by blast
    with True show ?thesis by (auto simp: count_list_0_iff)
  next
    case False
    from run_unconfigured [OF False] obtain e e' where
      "extractMaerskRates w = (Inl e', [WriteFile results_file (errorResult w e)])"
      by blast
    with False show ?thesis by simp
  qed
  show ?thesis
    using count close_once_configured [of w]
    by (simp add: constructor_iff run_ignores_close)
qed

lemma sample_config_ok: "claude_config_ok sample_world"
  by (simp add: claude_config_ok_def sample_world_def sample_env_def truthy_def)

theorem teardown_runs_exactly_once_witness:
  "claude_config_ok (sample_world\<lparr>fillBookingForm_steps := Inl (Error ''agent failed'')\<rparr>)
   \<and> count_list (snd (extractMaerskRates
          (sample_world\<lparr>fillBookingForm_steps := Inl (Error ''agent failed'')\<rparr>))) Carrier_close = 1
   \<and> extractMaerskRates (sample_world\<lparr>fillBookingForm_steps := Inl (Error ''agent failed''),
                                      stagehand_close := Inl (Error ''close failed'')\<rparr>)
     = extractMaerskRates (sample_world\<lparr>fillBookingForm_steps := Inl (Error ''agent failed'')\<rparr>)
   \<and> fst (extractMaerskRates (sample_world\<lparr>fillBookingForm_steps := Inl (Error ''agent failed''),
                                           stagehand_close := Inl (Error ''close failed'')\<rparr>))
     = Inl (Error ''agent failed'')"
proof -
  let ?w = "sample_world\<lparr>fillBookingForm_steps := Inl (Error ''agent failed'')\<rparr>"
  have ok: "claude_config_ok ?w"
    using sample_config_ok by (simp add: claude_config_ok_def)
  have thrown: "fst (extractMaerskRates ?w) = Inl (Error ''agent failed'')"
    by code_simp
  show ?thesis
    using ok thrown teardown_runs_exactly_once [of ?w "Inl (Error ''close failed'')"]
    by simp
qed

section \<open>Results of composed programs\<close>

lemma final_return: "final (js_return x) s = (Inr x, s)"
  by (simp add: final_def js_return_def)

lemma final_throw: "final (js_throw e) s = (Inl e, s)"
  by (simp add: final_def js_throw_def)

lemma final_external: "final (external ev answer) s = (answer, s)"
  by (simp add: final_def external_def)

lemma final_sleep: "final (sleep ms) s = (Inr (), s)"
  by (simp add: sleep_def final_external)

lemma final_get: "final (js_get f) s = final (f s) s"
  by (simp add: final_def js_get_def)

lemma final_modify: "final (js_modify f) s = (Inr (), f s)"
  by (simp add: final_def js_modify_def)

lemma final_seq:
  "final (js_seq m f) s =
     (case final m s of (Inl e, s1) \<Rightarrow> (Inl e, s1) | (Inr x, s1) \<Rightarrow> final (f x) s1)"
  by (simp add: final_def js_seq_def split: prod.splits sum.splits)

lemma final_try_catch:
  "final (js_try_catch m h) s =
     (case final m s of (Inl e, s1) \<Rightarrow> final (h e) s1 | (Inr x, s1) \<Rightarrow> (Inr x, s1))"
  by (simp add: final_def js_try_catch_def split: prod.splits sum.splits)

lemma final_try_finally:
  "final (js_try_finally m fin) s =
     (case final m s of
        (r, s1) \<Rightarrow> (case final fin s1 of (Inl e, s2) \<Rightarrow> (Inl e, s2) | (Inr u, s2) \<Rightarrow> (r, s2)))"
  by (simp add: final_def js_try_finally_def split: prod.splits sum.splits)

lemma final_on_carrier:
  "final (on_carrier method m) (Some this) =
     (case final m this of (r, this1) \<Rightarrow> (r, Some this1))"
  by (simp add: final_def on_carrier_def split: prod.splits)

lemma final_with_page:
  "final (with_page prop m) this =
     (if page this then final m this else (Inl (TypeError_reading ''null'' prop), this))"
  by (simp add: with_page_def final_get final_throw)

lemma final_with_agent:
  "final (with_agent prop m) this =
     (if agent this then final m this else (Inl (TypeError_reading ''null'' prop), this))"
  by (simp add: with_agent_def final_get final_throw)

lemmas final_simps =
  final_return final_throw final_external final_sleep final_get final_modify final_seq
  final_try_catch final_try_finally final_on_carrier final_with_page final_with_agent

lemma loginLoop_past:
  "maxLoginAttempts < attempt \<Longrightarrow>
   loginLoop login maxLoginAttempts attempt loginSuccess s = (Inr loginSuccess, s, [])"
  by (subst loginLoop.simps) simp

lemma loginLoop_logged_in:
  "loginLoop login maxLoginAttempts attempt True s = (Inr True, s, [])"
  by (subst loginLoop.simps) simp

lemma loginLoop_step:
  "attempt \<le> maxLoginAttempts \<Longrightarrow>
   loginLoop login maxLoginAttempts attempt False s =
     (case loginAttempt login maxLoginAttempts attempt False s of
        (Inl e, s1, t1) \<Rightarrow> (Inl e, s1, t1)
      | (Inr loginSuccess1, s1, t1) \<Rightarrow>
          (case loginLoop login maxLoginAttempts (attempt + 1) loginSuccess1 s1 of
             (r, s2, t2) \<Rightarrow> (r, s2, t1 @ t2)))"
  by (subst loginLoop.simps) simp

lemma loginLoop_last:
  "loginLoop login maxLoginAttempts maxLoginAttempts False s
     = loginAttempt login maxLoginAttempts maxLoginAttempts False s"
proof -
  obtain r s1 t1 where a: "loginAttempt login maxLoginAttempts maxLoginAttempts False s = (r, s1, t1)"
    by (cases "loginAttempt login maxLoginAttempts maxLoginAttempts False s") auto
  show ?thesis
  proof (cases r)
    case (Inl e)
    with a show ?thesis by (simp add: loginLoop_step)
  next
    case (Inr b)
    have "loginLoop login maxLoginAttempts (maxLoginAttempts + 1) b s1 = (Inr b, s1, [])"
      by (rule loginLoop_past) simp
    with a Inr show ?thesis by (simp add: loginLoop_step)
  qed
qed

lemma loginLoop_two_attempts:
  "loginLoop login 2 (Suc 0) False s =
     (case loginAttempt login 2 (Suc 0) False s of
        (Inl e, s1, t1) \<Rightarrow> (Inl e, s1, t1)
      | (Inr True, s1, t1) \<Rightarrow> (Inr True, s1, t1)
      | (Inr False, s1, t1) \<Rightarrow>
          (case loginAttempt login 2 2 False s1 of
             (r, s2, t2) \<Rightarrow> (r, s2, t1 @ t2)))"
proof -
  have two: "Suc 0 + 1 = 2" by simp
  have le: "Suc 0 \<le> (2::nat)" by simp
  obtain r s1 t1 where a: "loginAttempt login 2 (Suc 0) False s = (r, s1, t1)"
    by (cases "loginAttempt login 2 (Suc 0) False s") auto
  show ?thesis
  proof (cases r)
    case (Inl e)
    with a show ?thesis unfolding loginLoop_step [OF le] by simp
  next
    case (Inr b)
    show ?thesis
    proof (cases b)
      case True
      with a Inr show ?thesis
        unfolding loginLoop_step [OF le] two by (simp add: loginLoop_logged_in)
    next
      case False
      with a Inr show ?thesis
        unfolding loginLoop_step [OF le] two
        by (simp add: loginLoop_last split: prod.splits)
    qed
  qed
qed

lemma final_loginAttempt_first:
  "final (loginAttempt login 2 (Suc 0) False) s =
     (case final (login (Suc 0)) s of (Inl e, s1) \<Rightarrow> (Inr False, s1) | (Inr b, s1) \<Rightarrow> (Inr b, s1))"
  by (simp add: loginAttempt_def final_simps split: prod.splits sum.splits)

lemma final_loginAttempt_last:
  "final (loginAttempt login 2 2 False) s = final (login 2) s"
  by (simp add: loginAttempt_def final_simps split: prod.splits sum.splits)

lemma final_loginLoop:
  "final (loginLoop login 2 (Suc 0) False) s =
     (case final (login (Suc 0)) s of
        (Inr True, s1) \<Rightarrow> (Inr True, s1)
      | (other, s1) \<Rightarrow> final (login 2) s1)"
proof -
  have "final (loginLoop login 2 (Suc 0) False) s =
     (case final (loginAttempt login 2 (Suc 0) False) s of
        (Inl e, s1) \<Rightarrow> (Inl e, s1)
      | (Inr True, s1) \<Rightarrow> (Inr True, s1)
      | (Inr False, s1) \<Rightarrow> final (loginAttempt login 2 2 False) s1)"
    by (simp add: final_def loginLoop_two_attempts split: prod.splits sum.splits bool.splits)
  then show ?thesis
    by (simp add: final_loginAttempt_first final_loginAttempt_last
        split: prod.splits sum.splits bool.splits)
qed

section \<open>Results of the carrier methods\<close>

lemma final_validation_guard_sample:
  "final (validation_guard (createSampleBooking now)) s = (Inr (), s)"
  by (simp add: final_def validation_guard_sample)

lemma final_initBrowser:
  "final (initBrowser w headless) this =
     (case new_Stagehand w of
        Inl e \<Rightarrow> (Inl e, this)
      | Inr u \<Rightarrow>
          (case stagehand_init w of
             Inl e \<Rightarrow> (Inl e, this\<lparr>stagehand := True\<rparr>)
           | Inr u \<Rightarrow>
               (case stagehand_agent_anthropic w of
                  Inr u \<Rightarrow> (Inr (), this\<lparr>stagehand := True, page := True, agent := True\<rparr>)
                | Inl e \<Rightarrow>
                    (case stagehand_agent_default w of
                       Inr u \<Rightarrow> (Inr (), this\<lparr>stagehand := True, page := True, agent := True\<rparr>)
                     | Inl e \<Rightarrow> (Inl e, this\<lparr>stagehand := True, page := True\<rparr>)))))"
  by (simp add: initBrowser_def final_simps split: sum.splits)

lemma final_takeScreenshot:
  "final (takeScreenshot w filename) this =
     (if page this then (page_screenshot w filename, this) else (Inr (), this))"
  by (simp add: takeScreenshot_def final_simps)

lemma final_hybridLogin:
  "final (on_carrier method (hybridLogin w attempt)) (Some this) = (hybridLogin_body w attempt, Some this)"
  by (simp add: hybridLogin_def final_simps)

lemma final_login_loop:
  "final (loginLoop (\<lambda>attempt. on_carrier ''hybridLogin'' (hybridLogin w attempt)) 2 (Suc 0) False)
     (Some this) =
     (if hybridLogin_body w (Suc 0) = Inr True then (Inr True, Some this)
      else (hybridLogin_body w 2, Some this))"
  by (simp add: final_loginLoop final_hybridLogin split: sum.splits bool.splits)

lemma final_verifyBookingPage:
  "page this \<Longrightarrow> final (verifyBookingPage w) this = (page_extract_bookingPage w, this)"
  by (simp add: verifyBookingPage_def final_simps split: sum.splits)

lemma final_fillBookingForm_sample:
  "page this \<Longrightarrow>
   final (fillBookingForm w (createSampleBooking now)) this =
     (case fillBookingForm_steps w of
        Inr formResult \<Rightarrow> (Inr formResult, this)
      | Inl e \<Rightarrow>
          (case page_screenshot w ''error_form_filling_targeted.png'' of
             Inl e' \<Rightarrow> (Inl e', this)
           | Inr u \<Rightarrow> (Inl e, this)))"
  by (simp add: fillBookingForm_def final_simps final_validation_guard_sample
      final_takeScreenshot split: sum.splits)

lemma final_submitBookingForm:
  "final (submitBookingForm w) this = (submitBookingForm_body w, this)"
  by (simp add: submitBookingForm_def final_simps)

lemma final_extractRates:
  "page this \<Longrightarrow> agent this \<Longrightarrow>
   final (extractRates w) this =
     (case agent_execute w rate_analysis_prompt of
        Inl e \<Rightarrow>
          (case page_screenshot w ''error_rate_extraction_claude.png'' of
             Inl e' \<Rightarrow> (Inl e', this)
           | Inr u \<Rightarrow> (Inl e, this))
      | Inr rateAnalysis \<Rightarrow>
          (case page_extract_rates w of
             Inl e \<Rightarrow>
               (case page_screenshot w ''error_rate_extraction_claude.png'' of
                  Inl e' \<Rightarrow> (Inl e', this)
                | Inr u \<Rightarrow> (Inl e, this))
           | Inr structuredRates \<Rightarrow>
               (Inr \<lparr>success = True,
                     extractionTimestamp = toISOString_extractRates w,
                     source = ''Maersk.com'',
                     claudeAnalysis = result_message rateAnalysis,
                     rateData = structuredRates,
                     summary = \<lparr>totalOptions = totalOptionsFound structuredRates,
                                hasRates = hasRateInformation structuredRates,
                                pageAnalyzed = ratesPageType structuredRates\<rparr>\<rparr>,
                this)))"
  by (simp add: extractRates_def final_simps final_takeScreenshot split: sum.splits)

lemma final_close:
  "final (close w) this = (if stagehand this then (stagehand_close w, this) else (Inr (), this))"
  by (simp add: close_def final_simps)

lemma final_carrier_page_url:
  "page this \<Longrightarrow> final (carrier_page_url w) (Some this) = (Inr (page_url w), Some this)"
  by (simp add: carrier_page_url_def final_simps)

lemma final_goto_book:
  "page this \<Longrightarrow>
   final (goto_book w) (Some this) = (page_goto w (baseUrl this @ ''/book/''), Some this)"
  by (simp add: goto_book_def final_simps)

lemmas final_methods =
  final_initBrowser final_takeScreenshot final_login_loop final_verifyBookingPage
  final_fillBookingForm_sample final_submitBookingForm final_extractRates final_close
  final_carrier_page_url final_goto_book

section \<open>When the stages of the pipeline succeed\<close>

lemma save_rates_succeeds:
  assumes "page this" and "agent this"
  shows "(\<exists>x. fst (final (save_rates w) (Some this)) = Inr x) \<longleftrightarrow> rates_saved w"
  using assms
  by (auto simp: save_rates_def final_simps final_methods rates_saved_def split: sum.splits)

lemma submit_form_succeeds:
  assumes "page this" and "agent this"
  shows "(\<exists>x. fst (final (submit_form w) (Some this)) = Inr x) \<longleftrightarrow>
           form_submitted w \<and> rates_saved w"
proof (cases "submitBookingForm_body w")
  case (Inl e)
  then show ?thesis
    by (simp add: submit_form_def final_simps final_methods form_submitted_def)
next
  case (Inr submitResult)
  then show ?thesis
    using save_rates_succeeds [OF assms, of w]
    by (simp add: submit_form_def final_simps final_methods form_submitted_def)
qed

lemma fill_form_succeeds:
  assumes "page this" and "agent this"
  shows "(\<exists>x. fst (final (fill_form w (createSampleBooking now)) (Some this)) = Inr x) \<longleftrightarrow>
           form_filled w \<and> form_submitted w \<and> rates_saved w"
proof (cases "fillBookingForm_steps w")
  case (Inl e)
  with assms show ?thesis
    by (simp add: fill_form_def final_simps final_methods form_filled_def split: sum.splits)
next
  case (Inr formResult)
  with assms show ?thesis
    using submit_form_succeeds [OF assms, of w]
    by (simp add: fill_form_def final_simps final_methods form_filled_def)
qed


lemma final_initBrowser_starts:
  assumes "browser_starts w"
  shows "final (initBrowser w headless) this
           = (Inr (), this\<lparr>stagehand := True, page := True, agent := True\<rparr>)"
  using assms by (auto simp: final_initBrowser browser_starts_def split: sum.splits)

lemma final_initBrowser_fails:
  assumes "\<not> browser_starts w"
  shows "\<exists>e this1. final (initBrowser w headless) this = (Inl e, this1)"
  using assms by (auto simp: final_initBrowser browser_starts_def split: sum.splits)

lemmas final_stage_methods =
  final_login_loop final_verifyBookingPage final_carrier_page_url final_goto_book

lemma extract_stages_succeed:
  "(\<exists>x. fst (final (extract_stages w (createSampleBooking now)) (Some this)) = Inr x) \<longleftrightarrow>
     browser_starts w \<and> login_succeeds w
     \<and> (str_includes (page_url w) ''/book'' \<or> page_goto w (baseUrl this @ ''/book/'') = Inr ())
     \<and> booking_form_found w \<and> form_filled w \<and> form_submitted w \<and> rates_saved w"
proof (cases "browser_starts w")
  case False
  from final_initBrowser_fails [OF False] obtain e this1 where
    "final (initBrowser w False) this = (Inl e, this1)" by blast
  with False show ?thesis
    by (simp add: extract_stages_def final_simps)
next
  case True
  let ?this1 = "this\<lparr>stagehand := True, page := True, agent := True\<rparr>"
  note start = final_initBrowser_starts [OF True, of False this]
  have tail: "(\<exists>x. fst (final (fill_form w (createSampleBooking now)) (Some ?this1)) = Inr x) \<longleftrightarrow>
           form_filled w \<and> form_submitted w \<and> rates_saved w"
    by (rule fill_form_succeeds) simp_all
  show ?thesis
  proof (cases "login_succeeds w")
    case False
    then have "hybridLogin_body w (Suc 0) \<noteq> Inr True" "hybridLogin_body w 2 \<noteq> Inr True"
      by (auto simp: login_succeeds_def)
    with False True show ?thesis
      by (cases "hybridLogin_body w 2")
        (simp_all add: extract_stages_def final_simps final_stage_methods start)
  next
    case login: True
    then have loop: "final (loginLoop (\<lambda>attempt. on_carrier ''hybridLogin'' (hybridLogin w attempt))
                        2 (Suc 0) False) (Some ?this1) = (Inr True, Some ?this1)"
      by (auto simp: final_login_loop login_succeeds_def)
    show ?thesis
    proof (cases "str_includes (page_url w) ''/book'' \<or> page_goto w (baseUrl this @ ''/book/'') = Inr ()")
      case False
      then obtain e where "page_goto w (baseUrl this @ ''/book/'') = Inl e"
        by (cases "page_goto w (baseUrl this @ ''/book/'')") auto
      with False True login show ?thesis
        by (simp add: extract_stages_def final_simps final_carrier_page_url final_goto_book
            start loop)
    next
      case reached: True
      show ?thesis
      proof (cases "page_extract_bookingPage w")
        case (Inl e)
        with True login reached show ?thesis
          by (auto simp: extract_stages_def final_simps final_carrier_page_url final_goto_book
              final_verifyBookingPage start loop booking_form_found_def)
      next
        case (Inr pageAnalysis)
        with True login reached tail show ?thesis
          by (auto simp: extract_stages_def final_simps final_carrier_page_url final_goto_book
              final_verifyBookingPage start loop booking_form_found_def)
      qed
    qed
  qed
qed

section \<open>The result of a run of the pipeline\<close>

lemma final_extract_finally: "final (extract_finally w) carrier = (Inr (), carrier)"
  by (cases carrier)
    (simp_all add: final_def extract_finally_None extract_finally_Some)

lemma final_extract_catch:
  "final (extract_catch w error) carrier =
     (case carrier of
        None \<Rightarrow> (case writeFile w results_file (errorResult w error) of
                   Inl e \<Rightarrow> (Inl e, None) | Inr u \<Rightarrow> (Inl error, None))
      | Some this \<Rightarrow>
          (case writeFile w results_file (errorResult w error) of
             Inl e \<Rightarrow> (Inl e, Some this) | Inr u \<Rightarrow> (Inl error, Some this)))"
  by (cases carrier)
    (auto simp: extract_catch_def final_simps final_takeScreenshot split: sum.splits)

lemma extract_catch_throws: "\<exists>e. fst (final (extract_catch w error) carrier) = Inl e"
  by (simp add: final_extract_catch split: option.splits sum.splits)

text \<open>The pipeline returns what its \<open>try\<close> block returns; what the \<open>try\<close> block
  throws goes through the \<open>catch\<close> block.\<close>

lemma fst_extractMaerskRates:
  "fst (extractMaerskRates w) =
     (case final (extract_try w) None of
        (Inl e, carrier) \<Rightarrow> fst (final (extract_catch w e) carrier)
      | (Inr x, carrier) \<Rightarrow> Inr x)"
proof -
  have "fst (extractMaerskRates w) = fst (final (extractMaerskRates_prog w) None)"
    by (simp add: extractMaerskRates_def final_def split: prod.splits)
  then show ?thesis
    by (simp add: extractMaerskRates_prog_def final_try_finally final_try_catch
        final_extract_finally split: prod.splits sum.splits)
qed

lemma final_extract_try_unconfigured:
  assumes "\<not> claude_config_ok w"
  shows "\<exists>e. final (extract_try w) None = (Inl e, None)"
  using extract_try_unconfigured [OF assms] by (auto simp: final_def)

lemma constructed_carrier:
  assumes "MaerskCarrier_constructor (env w) = Inr this"
  shows "baseUrl this @ ''/book/'' = book_url w" and "\<not> page this" and "\<not> stagehand this"
  using assms
  by (auto simp: MaerskCarrier_constructor_def book_url_def Let_def split: if_splits)

lemma final_extract_try_configured:
  assumes "claude_config_ok w"
  shows "\<exists>this. MaerskCarrier_constructor (env w) = Inr this
           \<and> final (extract_try w) None
               = final (extract_stages w (createSampleBooking (Date_now w))) (Some this)"
proof -
  from assms obtain this where c: "MaerskCarrier_constructor (env w) = Inr this"
    using constructor_iff by blast
  with assms have "final (extract_try w) None
      = final (extract_stages w (createSampleBooking (Date_now w))) (Some this)"
    by (simp add: extract_try_def claude_config_ok_def final_simps Let_def)
      (simp add: final_def new_MaerskCarrier_def)
  with c show ?thesis by blast
qed

lemma run_returns_iff:
  "(\<exists>x. fst (extractMaerskRates w) = Inr x) \<longleftrightarrow> pipeline_succeeds w"
proof (cases "claude_config_ok w")
  case False
  from final_extract_try_unconfigured [OF False] obtain e where
    "final (extract_try w) None = (Inl e, None)" by blast
  with False extract_catch_throws [of w e None] show ?thesis
    by (auto simp: fst_extractMaerskRates pipeline_succeeds_def)
next
  case True
  from final_extract_try_configured [OF True] obtain this where
    c: "MaerskCarrier_constructor (env w) = Inr this"
    and t: "final (extract_try w) None
             = final (extract_stages w (createSampleBooking (Date_now w))) (Some this)"
    by blast
  obtain r carrier where st:
    "final (extract_stages w (createSampleBooking (Date_now w))) (Some this) = (r, carrier)"
    by (cases "final (extract_stages w (createSampleBooking (Date_now w))) (Some this)") auto
  have "(\<exists>x. fst (extractMaerskRates w) = Inr x) \<longleftrightarrow> (\<exists>x. r = Inr x)"
  proof (cases r)
    case (Inl e)
    with t st extract_catch_throws [of w e carrier] show ?thesis
      by (auto simp: fst_extractMaerskRates)
  next
    case (Inr x)
    with t st show ?thesis by (simp add: fst_extractMaerskRates)
  qed
  also have "\<dots> \<longleftrightarrow> (\<exists>x. fst (final (extract_stages w (createSampleBooking (Date_now w)))
                                  (Some this)) = Inr x)"
    using st by simp
  also have "\<dots> \<longleftrightarrow> pipeline_succeeds w"
    using True
    by (simp add: extract_stages_succeed constructed_carrier(1) [OF c] pipeline_succeeds_def
        booking_page_reached_def)
  finally show ?thesis .
qed

lemma run_returns_successResult:
  assumes "fst (extractMaerskRates w) = Inr x"
  shows "is_successResult x"
proof -
  from assms have ok: "claude_config_ok w"
    using run_returns_iff [of w] by (auto simp: pipeline_succeeds_def)
  from final_extract_try_configured [OF ok] obtain this where
    t: "final (extract_try w) None
          = final (extract_stages w (createSampleBooking (Date_now w))) (Some this)"
    by blast
  obtain r carrier tr where st:
    "extract_stages w (createSampleBooking (Date_now w)) (Some this) = (r, carrier, tr)"
    by (cases "extract_stages w (createSampleBooking (Date_now w)) (Some this)") auto
  have k: "keeps (\<lambda>carrier. carrier \<noteq> None) (\<lambda>ev. True) is_successResult
             (extract_stages w (createSampleBooking (Date_now w)))"
    by (rule keeps_extract_stages) simp_all
  show ?thesis
  proof (cases r)
    case (Inl e)
    with assms t st extract_catch_throws [of w e carrier] show ?thesis
      by (auto simp: fst_extractMaerskRates final_def)
  next
    case (Inr y)
    with assms t st have "x = y" by (simp add: fst_extractMaerskRates final_def)
    with keepsD(3) [OF k _ st Inr] show ?thesis by simp
  qed
qed

section \<open>The effects of a run of the pipeline\<close>

text \<open>
  The \<open>catch\<close> block: at most a screenshot, then the error document of the value
  caught; it throws that value again, or the error of \<open>writeFile\<close>.
\<close>

lemma extract_catch_run:
  "\<exists>t. (\<forall>ev \<in> set t. quiet ev)
     \<and> extract_catch w e carrier
         = ((case writeFile w results_file (errorResult w e) of Inl e' \<Rightarrow> Inl e' | Inr u \<Rightarrow> Inl e),
            carrier, t @ [WriteFile results_file (errorResult w e)])"
proof (cases carrier)
  case None
  then show ?thesis
    by (intro exI [of _ "[]"]) (simp add: extract_catch_None split: sum.splits)
next
  case (Some this)
  show ?thesis
  proof (cases "page this")
    case False
    with Some show ?thesis
      by (intro exI [of _ "[]"])
        (simp add: extract_catch_def js_seq_def js_get_def js_return_def external_def js_throw_def
          split: sum.splits)
  next
    case True
    with Some show ?thesis
      by (intro exI [of _ "[Page_screenshot ''error_claude_extraction.png'']"])
        (simp add: extract_catch_def js_seq_def js_get_def js_return_def external_def js_throw_def
          js_try_catch_def on_carrier_def takeScreenshot_def with_page_def
          split: sum.splits)
  qed
qed

lemma quiet_writes_only: "quiet ev \<Longrightarrow> writes_only P ev"
  by (cases ev) simp_all

lemma extract_try_run:
  "\<exists>r carrier t. extract_try w None = (r, carrier, t)
      \<and> (\<forall>ev \<in> set t. writes_only (\<lambda>path doc. path = results_file
            \<and> (\<exists>r. extractRates_result w r \<and> doc = json_of_jsonResult r)) ev)"
proof (cases "claude_config_ok w")
  case False
  from extract_try_unconfigured [OF False] show ?thesis by auto
next
  case True
  let ?P = "\<lambda>ev. writes_only (\<lambda>path doc. path = results_file
            \<and> (\<exists>r. extractRates_result w r \<and> doc = json_of_jsonResult r)) ev"
  from extract_try_configured [OF True] obtain this0 where
    start: "extract_try w None = extract_stages w (createSampleBooking (Date_now w)) (Some this0)"
    by blast
  obtain r1 s1 t1 where st: "extract_stages w (createSampleBooking (Date_now w)) (Some this0) = (r1, s1, t1)"
    by (cases "extract_stages w (createSampleBooking (Date_now w)) (Some this0)") auto
  have "keeps (\<lambda>carrier. carrier \<noteq> None) ?P is_successResult
          (extract_stages w (createSampleBooking (Date_now w)))"
  proof (rule keeps_extract_stages)
    show "\<And>ev. quiet ev \<Longrightarrow> ?P ev" by (rule quiet_writes_only)
    show "\<And>r. extractRates_result w r \<Longrightarrow> ?P (WriteFile results_file (json_of_jsonResult r))"
      by auto
  qed
  from keepsD(2) [OF this _ st] have "\<forall>ev \<in> set t1. ?P ev"
    by simp
  with start st show ?thesis by simp
qed

text \<open>
  A run of the pipeline. Either its \<open>try\<close> block returns, and the run returns that
  value; or the \<open>try\<close> block throws \<open>e\<close>, the \<open>catch\<close> block writes the error
  document of \<open>e\<close> and the run throws \<open>e\<close>, or the error of \<open>writeFile\<close>. The
  \<open>try\<close> block writes only what \<open>extractRates\<close> returned.
\<close>

lemma run_cases [case_names returns throws]:
  obtains x t t' where "extractMaerskRates w = (Inr x, t @ t')"
      and "\<forall>ev \<in> set t. writes_only (\<lambda>path doc. path = results_file
            \<and> (\<exists>r. extractRates_result w r \<and> doc = json_of_jsonResult r)) ev"
      and "\<forall>ev \<in> set t'. quiet ev \<or> ev = Carrier_close"
  | e t t' where "fst (final (extract_try w) None) = Inl e"
      and "extractMaerskRates w
           = ((case writeFile w results_file (errorResult w e) of Inl e' \<Rightarrow> Inl e' | Inr u \<Rightarrow> Inl e),
              t @ WriteFile results_file (errorResult w e) # t')"
      and "\<forall>ev \<in> set t. writes_only (\<lambda>path doc. path = results_file
            \<and> (\<exists>r. extractRates_result w r \<and> doc = json_of_jsonResult r)) ev"
      and "\<forall>ev \<in> set t'. quiet ev \<or> ev = Carrier_close"
proof -
  from extract_try_run [of w] obtain r1 s1 t1 where
    tried: "extract_try w None = (r1, s1, t1)"
    and t1: "\<forall>ev \<in> set t1. writes_only (\<lambda>path doc. path = results_file
            \<and> (\<exists>r. extractRates_result w r \<and> doc = json_of_jsonResult r)) ev"
    by blast
  have fin: "\<exists>t. (\<forall>ev \<in> set t. quiet ev \<or> ev = Carrier_close)
                \<and> extract_finally w s = (Inr (), s, t)" for s
    by (cases s) (auto simp: extract_finally_None extract_finally_Some)
  show thesis
  proof (cases r1)
    case (Inr x)
    from fin [of s1] obtain t3 where t3: "\<forall>ev \<in> set t3. quiet ev \<or> ev = Carrier_close"
      and f: "extract_finally w s1 = (Inr (), s1, t3)" by blast
    from tried Inr f have "extractMaerskRates w = (Inr x, t1 @ t3)"
      by (simp add: extractMaerskRates_def extractMaerskRates_prog_def js_try_finally_def
          js_try_catch_def)
    then show thesis using t1 t3 by (rule that(1))
  next
    case (Inl e)
    from extract_catch_run [of w e s1] obtain t2 where t2: "\<forall>ev \<in> set t2. quiet ev"
      and c: "extract_catch w e s1
         = ((case writeFile w results_file (errorResult w e) of Inl e' \<Rightarrow> Inl e' | Inr u \<Rightarrow> Inl e),
            s1, t2 @ [WriteFile results_file (errorResult w e)])"
      by blast
    from fin [of s1] obtain t3 where t3: "\<forall>ev \<in> set t3. quiet ev \<or> ev = Carrier_close"
      and f: "extract_finally w s1 = (Inr (), s1, t3)" by blast
    from tried Inl have thrown: "fst (final (extract_try w) None) = Inl e"
      by (simp add: final_def)
    from tried Inl c f have "extractMaerskRates w
        = ((case writeFile w results_file (errorResult w e) of Inl e' \<Rightarrow> Inl e' | Inr u \<Rightarrow> Inl e),
           (t1 @ t2) @ WriteFile results_file (errorResult w e) # t3)"
      by (simp add: extractMaerskRates_def extractMaerskRates_prog_def js_try_finally_def
          js_try_catch_def)
    moreover from t1 t2 have "\<forall>ev \<in> set (t1 @ t2). writes_only (\<lambda>path doc. path = results_file
            \<and> (\<exists>r. extractRates_result w r \<and> doc = json_of_jsonResult r)) ev"
      by (auto simp: quiet_writes_only)
    ultimately show thesis using thrown t3 by (intro that(2))
  qed
qed

section \<open>The documents the pipeline writes\<close>

lemma result_document_success:
  "extractRates_result w r \<Longrightarrow> result_document w (json_of_jsonResult r)"
  by (simp add: extractRates_result_def result_document_def json_of_jsonResult_def)

lemma success_of_extractRates_result:
  "extractRates_result w r \<Longrightarrow> get_prop (json_of_jsonResult r) ''success'' = Some (JBool True)"
  by (simp add: extractRates_result_def json_of_jsonResult_def)

lemma result_document_error: "result_document w (errorResult w e)"
  by (cases e) (simp_all add: result_document_def errorResult_def)

lemma error_of_errorResult:
  "get_prop (errorResult w e) ''error'' = map_option JString (message_of e)"
  by (cases e) (simp_all add: errorResult_def)

text \<open>
  C7, as the code has it. Every document the pipeline writes goes to
  \<open>maersk-rates.json\<close> and has a boolean \<open>success\<close>, the \<open>extractionTimestamp\<close>
  string of \<open>toISOString()\<close> and a \<open>summary\<close> object. A document with
  \<open>success: false\<close> is the \<open>errorResult\<close> of the value that the \<open>try\<close> block
  threw, which the run throws again unless writing the document fails; its \<open>error\<close>
  is \<open>error.message\<close> of that value: a string when the value has a message, and no
  property at all when it has none.
\<close>

theorem written_documents_have_the_result_shape:
  "\<forall>path doc. WriteFile path doc \<in> set (snd (extractMaerskRates w)) \<longrightarrow>
      path = results_file \<and> result_document w doc
      \<and> (get_prop doc ''success'' = Some (JBool False) \<longrightarrow>
            (\<exists>e. fst (final (extract_try w) None) = Inl e
               \<and> doc = errorResult w e
               \<and> get_prop doc ''error'' = map_option JString (message_of e)
               \<and> fst (extractMaerskRates w)
                   = (case writeFile w results_file doc of Inl e' \<Rightarrow> Inl e' | Inr u \<Rightarrow> Inl e)))"
proof (intro allI impI)
  fix path doc
  assume written: "WriteFile path doc \<in> set (snd (extractMaerskRates w))"
  let ?failure = "\<lambda>e. fst (final (extract_try w) None) = Inl e
               \<and> doc = errorResult w e
               \<and> get_prop doc ''error'' = map_option JString (message_of e)
               \<and> fst (extractMaerskRates w)
                   = (case writeFile w results_file doc of Inl e' \<Rightarrow> Inl e' | Inr u \<Rightarrow> Inl e)"
  have saved: "path = results_file \<and> result_document w doc
      \<and> (get_prop doc ''success'' = Some (JBool False) \<longrightarrow> (\<exists>e. ?failure e))"
    if "writes_only (\<lambda>path doc. path = results_file
            \<and> (\<exists>r. extractRates_result w r \<and> doc = json_of_jsonResult r)) (WriteFile path doc)"
    using that by (auto simp: result_document_success success_of_extractRates_result)
  have other: False if "quiet (WriteFile path doc) \<or> WriteFile path doc = Carrier_close"
    using that by simp
  show "path = results_file \<and> result_document w doc
      \<and> (get_prop doc ''success'' = Some (JBool False) \<longrightarrow> (\<exists>e. ?failure e))"
  proof (cases w rule: run_cases)
    case (returns x t t')
    from written returns(1) consider "WriteFile path doc \<in> set t" | "WriteFile path doc \<in> set t'"
      by auto
    then show ?thesis
    proof cases
      case 1
      with returns(2) show ?thesis by (intro saved) blast
    next
      case 2
      with returns(3) other show ?thesis by blast
    qed
  next
    case (throws e t t')
    from written throws(2) consider "WriteFile path doc \<in> set t"
      | "WriteFile path doc = WriteFile results_file (errorResult w e)"
      | "WriteFile path doc \<in> set t'"
      by auto
    then show ?thesis
    proof cases
      case 1
      with throws(3) show ?thesis by (intro saved) blast
    next
      case 2
      then have doc: "path = results_file" "doc = errorResult w e" by simp_all
      from throws(1,2) doc have "?failure e"
        by (simp add: error_of_errorResult)
      with doc show ?thesis by (auto simp: result_document_error)
    next
      case 3
      with throws(4) other show ?thesis by blast
    qed
  qed
qed

theorem written_documents_have_the_result_shape_witness:
  "WriteFile results_file
     (errorResult (sample_world\<lparr>fillBookingForm_steps := Inl (Error ''agent failed'')\<rparr>)
        (Error ''agent failed''))
     \<in> set (snd (extractMaerskRates (sample_world\<lparr>fillBookingForm_steps := Inl (Error ''agent failed'')\<rparr>)))
   \<and> result_document (sample_world\<lparr>fillBookingForm_steps := Inl (Error ''agent failed'')\<rparr>)
        (errorResult (sample_world\<lparr>fillBookingForm_steps := Inl (Error ''agent failed'')\<rparr>)
           (Error ''agent failed''))
   \<and> get_prop (errorResult (sample_world\<lparr>fillBookingForm_steps := Inl (Error ''agent failed'')\<rparr>)
                 (Error ''agent failed'')) ''error''
       = Some (JString ''agent failed'')
   \<and> WriteFile results_file
        (json_of_jsonResult
           \<lparr>success = True, extractionTimestamp = ''2025-01-01T00:00:00.000Z'',
            source = ''Maersk.com'', claudeAnalysis = ''three options'', rateData = sample_rates,
            summary = \<lparr>totalOptions = 3, hasRates = True, pageAnalyzed = ''rates''\<rparr>\<rparr>)
     \<in> set (snd (extractMaerskRates sample_world))
   \<and> result_document sample_world
        (json_of_jsonResult
           \<lparr>success = True, extractionTimestamp = ''2025-01-01T00:00:00.000Z'',
            source = ''Maersk.com'', claudeAnalysis = ''three options'', rateData = sample_rates,
            summary = \<lparr>totalOptions = 3, hasRates = True, pageAnalyzed = ''rates''\<rparr>\<rparr>)"
proof -
  let ?w = "sample_world\<lparr>fillBookingForm_steps := Inl (Error ''agent failed'')\<rparr>"
  let ?err = "errorResult ?w (Error ''agent failed'')"
  let ?doc = "json_of_jsonResult
           \<lparr>success = True, extractionTimestamp = ''2025-01-01T00:00:00.000Z'',
            source = ''Maersk.com'', claudeAnalysis = ''three options'', rateData = sample_rates,
            summary = \<lparr>totalOptions = 3, hasRates = True, pageAnalyzed = ''rates''\<rparr>\<rparr>"
  have failed: "WriteFile results_file ?err \<in> set (snd (extractMaerskRates ?w))"
    by code_simp
  have saved: "WriteFile results_file ?doc \<in> set (snd (extractMaerskRates sample_world))"
    by code_simp
  have no_success: "get_prop ?err ''success'' = Some (JBool False)"
    by (simp add: errorResult_def)
  from failed written_documents_have_the_result_shape [of ?w]
  have 1: "result_document ?w ?err
      \<and> (get_prop ?err ''success'' = Some (JBool False) \<longrightarrow>
            (\<exists>e. fst (final (extract_try ?w) None) = Inl e
               \<and> ?err = errorResult ?w e
               \<and> get_prop ?err ''error'' = map_option JString (message_of e)
               \<and> fst (extractMaerskRates ?w)
                   = (case writeFile ?w results_file ?err of Inl e' \<Rightarrow> Inl e' | Inr u \<Rightarrow> Inl e)))"
    by blast
  with no_success obtain e where e: "?err = errorResult ?w e"
      "get_prop ?err ''error'' = map_option JString (message_of e)"
    by blast
  from e(1) have "e = Error ''agent failed''"
    by (cases e) (simp_all add: errorResult_def)
  with e(2) have 3: "get_prop ?err ''error'' = Some (JString ''agent failed'')"
    by simp
  from saved written_documents_have_the_result_shape [of sample_world]
  have 2: "result_document sample_world ?doc" by blast
  from failed saved 1 2 3 show ?thesis by simp
qed

text \<open>
  A form-filling step that rejects with a string, not with an \<open>Error\<close> object: the
  document of the failure has \<open>success\<close>, \<open>extractionTimestamp\<close> and \<open>summary\<close>, and
  no \<open>error\<close>.
\<close>

theorem failure_document_without_error_counterexample:
  "extractMaerskRates (sample_world\<lparr>fillBookingForm_steps := Inl (Thrown ''agent failed'')\<rparr>)
     = (Inl (Thrown ''agent failed''),
        [New_Stagehand, Stagehand_init, Stagehand_agent, HybridLogin_body,
         Page_extract ''Analyze this Maersk booking page and identify all form elements'',
         FillBookingForm_steps,
         Page_screenshot ''error_form_filling_targeted.png'',
         Page_screenshot ''error_claude_extraction.png'',
         WriteFile ''maersk-rates.json''
           (JObject [(''success'', JBool False),
                     (''extractionTimestamp'', JString ''2025-01-01T00:01:00.000Z''),
                     (''summary'', JObject [(''totalOptions'', JNumber 0),
                                            (''pageAnalyzed'', JString ''Error occurred'')])]),
         Carrier_close, Stagehand_close])
   \<and> get_prop (JObject [(''success'', JBool False),
                     (''extractionTimestamp'', JString ''2025-01-01T00:01:00.000Z''),
                     (''summary'', JObject [(''totalOptions'', JNumber 0),
                                            (''pageAnalyzed'', JString ''Error occurred'')])]) ''error''
       = None"
  by code_simp

section \<open>Exit codes\<close>

lemma missingVars_iff:
  "length (filter (\<lambda>envVar. \<not> truthy (env w envVar))
             [''MAERSK_USERNAME'', ''MAERSK_PASSWORD'', ''ANTHROPIC_API_KEY'']) > 0
   \<longleftrightarrow> \<not> claude_config_ok w"
  by (auto simp: claude_config_ok_def)

lemma print_summary_successResult: "is_successResult result \<Longrightarrow> print_summary result = Inr ()"
  by (auto simp: is_successResult_def print_summary_def successResult_def)

lemma claude_main_exit:
  "exit_code (fst (claude_main w)) = (if pipeline_succeeds w then 0 else 1)"
proof (cases "claude_config_ok w")
  case False
  then show ?thesis
    using missingVars_iff [of w] by (simp add: claude_main_def pipeline_succeeds_def Let_def)
next
  case True
  obtain r t where run: "extractMaerskRates w = (r, t)"
    by (cases "extractMaerskRates w") auto
  show ?thesis
  proof (cases r)
    case (Inl e)
    with run have "\<not> pipeline_succeeds w"
      using run_returns_iff [of w] by auto
    with True Inl run show ?thesis
      using missingVars_iff [of w] by (simp add: claude_main_def Let_def)
  next
    case (Inr x)
    with run have "pipeline_succeeds w"
      using run_returns_iff [of w] by auto
    moreover from run Inr have "fst (extractMaerskRates w) = Inr x" by simp
    then have "print_summary x = Inr ()"
      by (intro print_summary_successResult run_returns_successResult)
    ultimately show ?thesis
      using True Inr run missingVars_iff [of w] by (simp add: claude_main_def Let_def)
  qed
qed

lemma final_main_js_rates:
  "final (main_js_rates w) (Some this) = (Inr (), Some this)"
proof -
  obtain r this1 where "final (extractRates w) this = (r, this1)"
    by (cases "final (extractRates w) this") auto
  moreover have "fst (snd (extractRates w this)) = this"
    by (simp add: extractRates_def js_try_catch_def js_seq_def with_agent_def with_page_def
        js_get_def external_def js_throw_def js_return_def takeScreenshot_def
        split: sum.splits prod.splits)
  ultimately show ?thesis
    by (cases r) (simp_all add: main_js_rates_def final_simps, simp_all add: final_def)
qed

lemma final_main_js_form:
  assumes "page this" and "agent this" and "\<forall>filename. page_screenshot w filename = Inr ()"
  shows "final (main_js_form w (createSampleBooking now)) (Some this) = (Inr (), Some this)"
  using assms
  by (simp add: main_js_form_def final_simps final_fillBookingForm_sample
      final_submitBookingForm final_main_js_rates final_takeScreenshot split: sum.splits)


lemma fst_main_js:
  "fst (main_js w) =
     (if \<not> main_js_config_ok w then Exited 1
      else (case fst (final (main_js_try w) None) of Inl e \<Rightarrow> Exited 1 | Inr u \<Rightarrow> Returned))"
  by (auto simp: main_js_def main_js_config_ok_def final_def split: prod.splits sum.splits)

lemma final_main_js_try:
  "final (main_js_try w) None =
     (case MaerskCarrier_constructor (env w) of
        Inl e \<Rightarrow> (Inl e, None)
      | Inr this \<Rightarrow> final (main_js_stages w (createSampleBooking (Date_now w))) (Some this))"
  by (cases "MaerskCarrier_constructor (env w)")
    (simp_all add: main_js_try_def final_simps Let_def, simp_all add: final_def new_MaerskCarrier_def)

lemmas main_js_stage_simps =
  main_js_stages_def final_simps final_stage_methods final_takeScreenshot final_close

lemma main_js_stages_browser_fails:
  assumes "\<not> browser_starts w"
  shows "\<exists>e. fst (final (main_js_stages w booking) (Some this)) = Inl e"
proof -
  from final_initBrowser_fails [OF assms] obtain e this1 where
    "final (initBrowser w False) this = (Inl e, this1)" by blast
  then show ?thesis by (simp add: main_js_stages_def final_simps)
qed

lemma main_js_stages_login_throws:
  assumes "browser_starts w" and "hybridLogin_body w 1 \<noteq> Inr True"
    and "hybridLogin_body w 2 = Inl e"
  shows "fst (final (main_js_stages w booking) (Some this)) = Inl e"
  using assms
  by (simp add: main_js_stage_simps final_initBrowser_starts)

lemma main_js_stages_after_login:
  assumes "browser_starts w" and "login_succeeds w"
  shows "fst (final (main_js_stages w (createSampleBooking now)) (Some this)) =
     (if str_includes (page_url w) ''/book'' \<or> page_goto w (baseUrl this @ ''/book/'') = Inr ()
      then (case page_extract_bookingPage w of
              Inl e \<Rightarrow> Inl e
            | Inr pageAnalysis \<Rightarrow>
                (case (if hasBookingForm pageAnalysis \<and> hasLocationFields pageAnalysis
                       then fst (final (main_js_form w (createSampleBooking now))
                                   (Some (this\<lparr>stagehand := True, page := True, agent := True\<rparr>)))
                       else page_screenshot w ''debug_no_booking_form.png'') of
                   Inl e \<Rightarrow> Inl e
                 | Inr u \<Rightarrow> stagehand_close w))
      else (case page_goto w (baseUrl this @ ''/book/'') of Inl e \<Rightarrow> Inl e | Inr u \<Rightarrow> Inr ()))"
proof -
  let ?this1 = "this\<lparr>stagehand := True, page := True, agent := True\<rparr>"
  from assms(2) have loop:
    "final (loginLoop (\<lambda>attempt. on_carrier ''hybridLogin'' (hybridLogin w attempt))
              2 (Suc 0) False) (Some ?this1) = (Inr True, Some ?this1)"
    by (auto simp: final_login_loop login_succeeds_def)
  have form_state: "snd (final (main_js_form w (createSampleBooking now)) (Some ?this1)) = Some ?this1"
    by (simp add: main_js_form_def final_simps final_fillBookingForm_sample
        final_submitBookingForm final_main_js_rates final_takeScreenshot split: sum.splits)
  obtain rf where form: "final (main_js_form w (createSampleBooking now)) (Some ?this1) = (rf, Some ?this1)"
    using form_state by (cases "final (main_js_form w (createSampleBooking now)) (Some ?this1)") auto
  show ?thesis
    using assms(1)
    by (simp add: main_js_stages_def final_simps final_carrier_page_url final_goto_book
        final_verifyBookingPage final_takeScreenshot final_close final_initBrowser_starts
        loop form split: sum.splits)
qed

lemma main_js_exit_failure:
  assumes config: "main_js_config_ok w"
    and failure: "\<not> claude_config_ok w \<or> \<not> browser_starts w
       \<or> (hybridLogin_body w 1 \<noteq> Inr True \<and> (\<exists>e. hybridLogin_body w 2 = Inl e))
       \<or> (login_succeeds w \<and> \<not> booking_page_reached w)
       \<or> (login_succeeds w \<and> booking_page_reached w \<and> (\<exists>e. page_extract_bookingPage w = Inl e))"
  shows "fst (main_js w) = Exited 1"
proof (cases "MaerskCarrier_constructor (env w)")
  case (Inl e)
  with config show ?thesis
    by (simp add: fst_main_js final_main_js_try)
next
  case (Inr this)
  then have ok: "claude_config_ok w" using constructor_iff [of w] by auto
  note url = constructed_carrier(1) [OF Inr]
  let ?stages = "final (main_js_stages w (createSampleBooking (Date_now w))) (Some this)"
  have "\<exists>e. fst ?stages = Inl e"
  proof (cases "browser_starts w")
    case False
    then show ?thesis by (rule main_js_stages_browser_fails)
  next
    case True
    with ok failure consider
      (login) e where "hybridLogin_body w 1 \<noteq> Inr True" "hybridLogin_body w 2 = Inl e"
      | (page) "login_succeeds w" "\<not> booking_page_reached w"
      | (analysis) e where "login_succeeds w" "booking_page_reached w"
          "page_extract_bookingPage w = Inl e"
      by blast
    then show ?thesis
    proof cases
      case login
      with True show ?thesis by (auto simp: main_js_stages_login_throws)
    next
      case page
      with True show ?thesis
        by (cases "page_goto w (book_url w)")
          (auto simp: main_js_stages_after_login url booking_page_reached_def)
    next
      case analysis
      with True show ?thesis
        by (auto simp: main_js_stages_after_login url booking_page_reached_def)
    qed
  qed
  with config Inr show ?thesis
    by (auto simp: fst_main_js final_main_js_try)
qed

lemma main_js_exit_tolerant:
  assumes config: "main_js_config_ok w" and ok: "claude_config_ok w"
    and starts: "browser_starts w" and login: "login_succeeds w"
    and reached: "booking_page_reached w"
    and analysed: "\<exists>pageAnalysis. page_extract_bookingPage w = Inr pageAnalysis"
    and screenshots: "\<forall>filename. page_screenshot w filename = Inr ()"
    and closes: "stagehand_close w = Inr ()"
  shows "fst (main_js w) = Returned"
proof -
  from ok obtain this where c: "MaerskCarrier_constructor (env w) = Inr this"
    using constructor_iff [of w] by blast
  note url = constructed_carrier(1) [OF c]
  let ?this1 = "this\<lparr>stagehand := True, page := True, agent := True\<rparr>"
  have form: "final (main_js_form w (createSampleBooking (Date_now w))) (Some ?this1)
                = (Inr (), Some ?this1)"
    by (rule final_main_js_form) (simp_all add: screenshots)
  from analysed obtain pageAnalysis where "page_extract_bookingPage w = Inr pageAnalysis"
    by blast
  with reached screenshots closes form
  have "fst (final (main_js_stages w (createSampleBooking (Date_now w))) (Some this)) = Inr ()"
    by (simp add: main_js_stages_after_login [OF starts login] url booking_page_reached_def)
  with config c show ?thesis
    by (simp add: fst_main_js final_main_js_try)
qed

text \<open>
  C8, as the code has it. The Claude entry point ends with exit code 0 exactly when
  the full pipeline succeeds and with 1 otherwise. \<open>main.js\<close> ends with 1 when a
  credential or the OpenAI key is missing, and when the carrier cannot be built, the
  browser does not start, the last login attempt throws, the booking page is not reached
  or the page analysis throws; once the booking page has been analysed it ends with 0
  whenever the screenshots and the final \<open>close\<close> succeed, whatever form filling,
  submission and rate extraction do.
\<close>

theorem exit_codes_of_the_entry_points:
  "exit_code (fst (claude_main w)) = (if pipeline_succeeds w then 0 else 1)
   \<and> (\<not> main_js_config_ok w \<longrightarrow> exit_code (fst (main_js w)) = 1)
   \<and> (main_js_config_ok w
        \<and> (\<not> claude_config_ok w \<or> \<not> browser_starts w
           \<or> (hybridLogin_body w 1 \<noteq> Inr True \<and> (\<exists>e. hybridLogin_body w 2 = Inl e))
           \<or> (login_succeeds w \<and> \<not> booking_page_reached w)
           \<or> (login_succeeds w \<and> booking_page_reached w
               \<and> (\<exists>e. page_extract_bookingPage w = Inl e)))
        \<longrightarrow> exit_code (fst (main_js w)) = 1)
   \<and> (main_js_config_ok w \<and> claude_config_ok w \<and> browser_starts w \<and> login_succeeds w
        \<and> booking_page_reached w
        \<and> (\<exists>pageAnalysis. page_extract_bookingPage w = Inr pageAnalysis)
        \<and> (\<forall>filename. page_screenshot w filename = Inr ())
        \<and> stagehand_close w = Inr ()
        \<longrightarrow> exit_code (fst (main_js w)) = 0)"
proof (intro conjI impI)
  show "exit_code (fst (claude_main w)) = (if pipeline_succeeds w then 0 else 1)"
    by (rule claude_main_exit)
next
  assume "\<not> main_js_config_ok w"
  then show "exit_code (fst (main_js w)) = 1" by (simp add: fst_main_js)
next
  assume "main_js_config_ok w
        \<and> (\<not> claude_config_ok w \<or> \<not> browser_starts w
           \<or> (hybridLogin_body w 1 \<noteq> Inr True \<and> (\<exists>e. hybridLogin_body w 2 = Inl e))
           \<or> (login_succeeds w \<and> \<not> booking_page_reached w)
           \<or> (login_succeeds w \<and> booking_page_reached w
               \<and> (\<exists>e. page_extract_bookingPage w = Inl e)))"
  then have "fst (main_js w) = Exited 1"
    by (intro main_js_exit_failure) blast+
  then show "exit_code (fst (main_js w)) = 1" by simp
next
  assume "main_js_config_ok w \<and> claude_config_ok w \<and> browser_starts w \<and> login_succeeds w
        \<and> booking_page_reached w
        \<and> (\<exists>pageAnalysis. page_extract_bookingPage w = Inr pageAnalysis)
        \<and> (\<forall>filename. page_screenshot w filename = Inr ())
        \<and> stagehand_close w = Inr ()"
  then have "fst (main_js w) = Returned"
    by (intro main_js_exit_tolerant) blast+
  then show "exit_code (fst (main_js w)) = 0" by simp
qed

lemmas run_defs =
  js_seq_def js_try_catch_def js_try_finally_def js_return_def js_throw_def external_def
  sleep_def js_get_def js_modify_def on_carrier_def with_page_def with_agent_def
  new_MaerskCarrier_def MaerskCarrier_constructor_def initBrowser_def close_def
  takeScreenshot_def hybridLogin_def verifyBookingPage_def fillBookingForm_def
  submitBookingForm_def extractRates_def carrier_page_url_def goto_book_def
  loginLoop_two_attempts loginAttempt_def validation_guard_sample
  sample_world_def sample_env_def truthy_def startsWith_def Let_def

lemma sample_world_stages:
  "main_js_config_ok sample_world" "browser_starts sample_world" "login_succeeds sample_world"
  "booking_page_reached sample_world" "booking_form_found sample_world"
  "form_filled sample_world" "form_submitted sample_world" "rates_saved sample_world"
  by (simp_all add: main_js_config_ok_def browser_starts_def login_succeeds_def
      booking_page_reached_def booking_form_found_def form_filled_def form_submitted_def
      rates_saved_def sample_world_def sample_env_def truthy_def startsWith_def)

lemma sample_world_succeeds: "pipeline_succeeds sample_world"
  by (simp add: pipeline_succeeds_def sample_config_ok sample_world_stages)

theorem exit_codes_of_the_entry_points_witness:
  "pipeline_succeeds sample_world
   \<and> exit_code (fst (claude_main sample_world)) = 0
   \<and> \<not> pipeline_succeeds (sample_world\<lparr>fillBookingForm_steps := Inl (Error ''agent failed'')\<rparr>)
   \<and> exit_code (fst (claude_main
        (sample_world\<lparr>fillBookingForm_steps := Inl (Error ''agent failed'')\<rparr>))) = 1
   \<and> \<not> main_js_config_ok (sample_world\<lparr>env := (\<lambda>name. None)\<rparr>)
   \<and> exit_code (fst (main_js (sample_world\<lparr>env := (\<lambda>name. None)\<rparr>))) = 1
   \<and> main_js_config_ok (sample_world\<lparr>stagehand_init := Inl (Error ''no browser'')\<rparr>)
   \<and> \<not> browser_starts (sample_world\<lparr>stagehand_init := Inl (Error ''no browser'')\<rparr>)
   \<and> exit_code (fst (main_js (sample_world\<lparr>stagehand_init := Inl (Error ''no browser'')\<rparr>))) = 1
   \<and> exit_code (fst (main_js sample_world)) = 0"
proof -
  let ?form = "sample_world\<lparr>fillBookingForm_steps := Inl (Error ''agent failed'')\<rparr>"
  let ?none = "sample_world\<lparr>env := (\<lambda>name. None)\<rparr>"
  let ?browser = "sample_world\<lparr>stagehand_init := Inl (Error ''no browser'')\<rparr>"
  have form: "\<not> pipeline_succeeds ?form"
    by (simp add: pipeline_succeeds_def form_filled_def)
  have none: "\<not> main_js_config_ok ?none"
    by (simp add: main_js_config_ok_def truthy_def)
  have browser: "main_js_config_ok ?browser" "\<not> browser_starts ?browser"
    using sample_world_stages(1) by (simp_all add: main_js_config_ok_def browser_starts_def)
  have analysed: "\<exists>pageAnalysis. page_extract_bookingPage sample_world = Inr pageAnalysis"
    by (simp add: sample_world_def)
  have quiet_end: "\<forall>filename. page_screenshot sample_world filename = Inr ()"
    "stagehand_close sample_world = Inr ()"
    by (simp_all add: sample_world_def)
  show ?thesis
    using sample_world_succeeds form none browser analysed quiet_end sample_config_ok
      sample_world_stages
      exit_codes_of_the_entry_points [of sample_world]
      exit_codes_of_the_entry_points [of ?form]
      exit_codes_of_the_entry_points [of ?none]
      exit_codes_of_the_entry_points [of ?browser]
    by simp
qed

theorem failed_form_filling_exits_with_0_counterexample:
  "fillBookingForm_steps (sample_world\<lparr>fillBookingForm_steps := Inl (Error ''agent failed'')\<rparr>)
     = Inl (Error ''agent failed'')
   \<and> \<not> pipeline_succeeds (sample_world\<lparr>fillBookingForm_steps := Inl (Error ''agent failed'')\<rparr>)
   \<and> main_js (sample_world\<lparr>fillBookingForm_steps := Inl (Error ''agent failed'')\<rparr>)
     = (Returned,
        [New_Stagehand, Stagehand_init, Stagehand_agent, HybridLogin_body, SetTimeout 3000,
         Page_extract bookingPage_instruction, FillBookingForm_steps,
         Page_screenshot ''error_form_filling_targeted.png'',
         Page_screenshot ''error_form_filling.png'',
         SetTimeout 60000, Carrier_close, Stagehand_close])
   \<and> exit_code (fst (main_js
        (sample_world\<lparr>fillBookingForm_steps := Inl (Error ''agent failed'')\<rparr>))) = 0"
proof -
  let ?form = "sample_world\<lparr>fillBookingForm_steps := Inl (Error ''agent failed'')\<rparr>"
  have failed: "\<not> pipeline_succeeds ?form"
    by (simp add: pipeline_succeeds_def form_filled_def)
  have run: "main_js ?form
     = (Returned,
        [New_Stagehand, Stagehand_init, Stagehand_agent, HybridLogin_body, SetTimeout 3000,
         Page_extract bookingPage_instruction, FillBookingForm_steps,
         Page_screenshot ''error_form_filling_targeted.png'',
         Page_screenshot ''error_form_filling.png'',
         SetTimeout 60000, Carrier_close, Stagehand_close])"
    by (simp add: main_js_def main_js_try_def main_js_stages_def main_js_form_def
        main_js_rates_def run_defs)
  from failed run show ?thesis by simp
qed

section \<open>The error of an exhausted login\<close>

lemma extract_stages_login_throws:
  assumes "browser_starts w" and "hybridLogin_body w 1 \<noteq> Inr True"
    and "hybridLogin_body w 2 = Inl e"
  shows "final (extract_stages w booking) (Some this)
           = (Inl e, Some (this\<lparr>stagehand := True, page := True, agent := True\<rparr>))"
  using assms
  by (simp add: extract_stages_def final_simps final_login_loop final_initBrowser_starts)

text \<open>
  C5, as the code has it. When the last login attempt throws, the loop throws that
  error as it is: nothing is added to it. The pipeline writes the error document,
  with the message of the error when it has one, and throws the same error to its
  caller; only when writing the document fails is the error of \<open>writeFile\<close> thrown
  instead.
\<close>

theorem last_login_error_is_rethrown_unchanged:
  assumes "claude_config_ok w" and "browser_starts w"
    and "hybridLogin_body w 1 \<noteq> Inr True" and "hybridLogin_body w 2 = Inl e"
  shows "fst (loginLoop (\<lambda>attempt. on_carrier ''hybridLogin'' (hybridLogin w attempt)) 2 1 False
                (Some this)) = Inl e
       \<and> fst (extractMaerskRates w)
           = (case writeFile w results_file (errorResult w e) of
                Inl e' \<Rightarrow> Inl e' | Inr u \<Rightarrow> Inl e)
       \<and> WriteFile results_file (errorResult w e) \<in> set (snd (extractMaerskRates w))
       \<and> get_prop (errorResult w e) ''error'' = map_option JString (message_of e)"
proof -
  have "fst (final (loginLoop (\<lambda>attempt. on_carrier ''hybridLogin'' (hybridLogin w attempt))
                      2 (Suc 0) False) (Some this)) = Inl e"
    using assms(3,4) by (simp add: final_login_loop)
  then have loop: "fst (loginLoop (\<lambda>attempt. on_carrier ''hybridLogin'' (hybridLogin w attempt))
                          2 1 False (Some this)) = Inl e"
    by (simp add: final_def)
  from final_extract_try_configured [OF assms(1)] obtain this0 where
    "final (extract_try w) None
       = final (extract_stages w (createSampleBooking (Date_now w))) (Some this0)"
    by blast
  then have thrown: "final (extract_try w) None
       = (Inl e, Some (this0\<lparr>stagehand := True, page := True, agent := True\<rparr>))"
    by (simp add: extract_stages_login_throws [OF assms(2,3,4)])
  then have run: "fst (extractMaerskRates w)
           = (case writeFile w results_file (errorResult w e) of
                Inl e' \<Rightarrow> Inl e' | Inr u \<Rightarrow> Inl e)"
    by (simp add: fst_extractMaerskRates final_extract_catch split: sum.splits)
  have written: "WriteFile results_file (errorResult w e) \<in> set (snd (extractMaerskRates w))"
  proof (cases w rule: run_cases)
    case (returns x t t')
    with run show ?thesis by (simp split: sum.splits)
  next
    case (throws e0 t t')
    from throws(1) thrown have "e0 = e" by simp
    with throws(2) show ?thesis by simp
  qed
  have doc: "get_prop (errorResult w e) ''error'' = map_option JString (message_of e)"
    by (cases e) (simp_all add: errorResult_def)
  from loop run written doc show ?thesis by simp
qed

lemma failing_login_world:
  "claude_config_ok (sample_world\<lparr>hybridLogin_body := (\<lambda>attempt. Inl (Error ''Navigation timeout''))\<rparr>)"
  "browser_starts (sample_world\<lparr>hybridLogin_body := (\<lambda>attempt. Inl (Error ''Navigation timeout''))\<rparr>)"
  using sample_config_ok sample_world_stages(2)
  by (simp_all add: claude_config_ok_def browser_starts_def)

theorem last_login_error_is_rethrown_unchanged_witness:
  "claude_config_ok (sample_world\<lparr>hybridLogin_body := (\<lambda>attempt. Inl (Error ''Navigation timeout''))\<rparr>)
   \<and> browser_starts (sample_world\<lparr>hybridLogin_body := (\<lambda>attempt. Inl (Error ''Navigation timeout''))\<rparr>)
   \<and> hybridLogin_body (sample_world\<lparr>hybridLogin_body := (\<lambda>attempt. Inl (Error ''Navigation timeout''))\<rparr>) 1
       \<noteq> Inr True
   \<and> fst (loginLoop (\<lambda>attempt. on_carrier ''hybridLogin''
            (hybridLogin (sample_world\<lparr>hybridLogin_body := (\<lambda>attempt. Inl (Error ''Navigation timeout''))\<rparr>)
               attempt)) 2 1 False (Some sample_carrier))
       = Inl (Error ''Navigation timeout'')
   \<and> WriteFile results_file
        (errorResult
          (sample_world\<lparr>hybridLogin_body := (\<lambda>attempt. Inl (Error ''Navigation timeout''))\<rparr>)
          (Error ''Navigation timeout''))
       \<in> set (snd (extractMaerskRates
            (sample_world\<lparr>hybridLogin_body := (\<lambda>attempt. Inl (Error ''Navigation timeout''))\<rparr>)))
   \<and> get_prop (errorResult
          (sample_world\<lparr>hybridLogin_body := (\<lambda>attempt. Inl (Error ''Navigation timeout''))\<rparr>)
          (Error ''Navigation timeout'')) ''error''
       = Some (JString ''Navigation timeout'')"
proof -
  let ?w = "sample_world\<lparr>hybridLogin_body := (\<lambda>attempt. Inl (Error ''Navigation timeout''))\<rparr>"
  have first: "hybridLogin_body ?w 1 \<noteq> Inr True" by simp
  have last: "hybridLogin_body ?w 2 = Inl (Error ''Navigation timeout'')" by simp
  show ?thesis
    using failing_login_world first
      last_login_error_is_rethrown_unchanged [OF failing_login_world first last, of sample_carrier]
    by simp
qed

theorem bare_login_error_counterexample:
  "hybridLogin_body (sample_world\<lparr>hybridLogin_body := (\<lambda>attempt. Inl (Error ''Navigation timeout''))\<rparr>) 2
     = Inl (Error ''Navigation timeout'')
   \<and> extractMaerskRates (sample_world\<lparr>hybridLogin_body := (\<lambda>attempt. Inl (Error ''Navigation timeout''))\<rparr>)
     = (Inl (Error ''Navigation timeout''),
        [New_Stagehand, Stagehand_init, Stagehand_agent, HybridLogin_body, SetTimeout 3000,
         HybridLogin_body, Page_screenshot ''error_claude_extraction.png'',
         WriteFile ''maersk-rates.json''
           (JObject [(''success'', JBool False), (''error'', JString ''Navigation timeout''),
                     (''extractionTimestamp'', JString ''2025-01-01T00:01:00.000Z''),
                     (''summary'', JObject [(''totalOptions'', JNumber 0),
                                            (''pageAnalyzed'', JString ''Error occurred'')])]),
         Carrier_close, Stagehand_close])"
  by (simp add: extractMaerskRates_def extractMaerskRates_prog_def extract_try_def
      extract_stages_def extract_catch_def extract_finally_def errorResult_def results_file_def
      createSampleBooking_def run_defs)

end
